theory Spec2Isabelle
  imports Main "HOL-Library.Char_ord" "HOL-Library.List_Lexorder" "HOL-Library.Product_Lexorder"
begin

section \<open>Data model (reservas/models.py)\<close>

text \<open>
  The four Django models become records. Primary keys are natural numbers. The
  \<open>choices\<close> lists of \<open>Recurso.estado_recurso\<close> and \<open>Reserva.estado\<close> become
  datatypes. \<open>BigIntegerField\<close> values are Python integers, modelled as \<open>int\<close>;
  the storage refuses to insert one that does not fit the signed 64-bit column (see
  \<open>en_rango_bigint\<close>). The lengths of the text columns are not modelled. Timestamps
  (\<open>DateTimeField\<close>) are natural numbers; a nullable column is an \<open>option\<close>.
  Field names that two models share carry a suffix in the second one.
\<close>

datatype estado_recurso_t = DISPONIBLE | OCUPADO | FUERA_SERVICIO

datatype estado_solicitud = EN_COLA | ACTIVA | FINALIZADA | CANCELADA | RECHAZADA | EXPIRADA

record Cliente =
  cliente_pk :: nat
  identificador_externo :: string
  nombre :: "string option"

text \<open>A row of \<open>Recurso\<close>; its primary key is the key of the table (see \<open>bd\<close>).\<close>

record Recurso =
  codigo :: string
  nombre_recurso :: "string option"
  descripcion :: "string option"
  estado_recurso :: estado_recurso_t
  reserva_actual :: "nat option"
  fecha_creacion_recurso :: nat

record Reserva =
  reserva_pk :: nat
  recurso :: nat
  cliente :: nat
  reloj_lamport :: int
  prioridad_id :: string
  estado :: estado_solicitud
  fecha_concesion :: "nat option"
  fecha_liberacion :: "nat option"
  fecha_creacion :: nat

text \<open>The JSON values that the code stores in \<open>Evento.datos\<close> and returns from the API.\<close>

datatype valor = Texto string | Entero int | Booleano bool

record Evento =
  evento_pk :: nat
  reserva :: "nat option"
  tipo_evento :: string
  ts_cliente :: "int option"
  ts_servidor :: nat
  datos :: "(string \<times> valor) list"

text \<open>
  The database: \<open>recursos\<close> is keyed by primary key; \<open>reservas\<close> and \<open>eventos\<close>
  are the tables in insertion order.
\<close>

record bd =
  clientes :: "Cliente list"
  recursos :: "nat \<rightharpoonup> Recurso"
  reservas :: "Reserva list"
  eventos :: "Evento list"

section \<open>Exceptions and observable effects\<close>

text \<open>
  \<open>Recurso_DoesNotExist\<close> is raised by \<open>Recurso.objects...get(id=...)\<close>,
  \<open>Cliente_DoesNotExist\<close> by following the foreign key \<open>siguiente.cliente\<close> to a
  missing row, \<open>Http404\<close> by \<open>get_object_or_404\<close>, \<open>DataError\<close> by the storage
  when \<open>objects.create\<close> inserts an integer that is out of the range of its
  \<open>BigIntegerField\<close>, and \<open>ErrorDeEnvio\<close> stands for whatever
  \<open>channel_layer.group_send\<close> raises when delivery fails.
\<close>

datatype excepcion =
  Recurso_DoesNotExist | Cliente_DoesNotExist | Http404 | DataError | ErrorDeEnvio string

text \<open>
  The effects of one call, in the order they happen: entering the
  \<open>transaction.atomic\<close> block, the row lock of \<open>select_for_update\<close>, the
  \<open>group_send\<close> to the group of a resource, and the commit or rollback that
  leaves the atomic block.
\<close>

datatype efecto = ATOMIC_BEGIN | SELECT_FOR_UPDATE nat | GROUP_SEND nat | COMMIT | ROLLBACK

text \<open>
  A configured channel layer is its \<open>group_send\<close>: given the resource id that names the
  group \<open>recurso_<id>\<close>, it returns or raises. \<open>get_channel_layer()\<close> is an
  argument of the operations: \<open>None\<close> when Channels is not configured.
\<close>

type_synonym capa_canales = "nat \<Rightarrow> excepcion + unit"

section \<open>Query helpers\<close>

text \<open>\<open>QuerySet.first()\<close>.\<close>

definition primero :: "'a list \<Rightarrow> 'a option" where
  "primero xs = (case xs of [] \<Rightarrow> None | x # _ \<Rightarrow> Some x)"

text \<open>\<open>aggregate(Max(...))\<close>: \<open>None\<close> over no rows.\<close>

definition agregar_max :: "int list \<Rightarrow> int option" where
  "agregar_max xs = (case xs of [] \<Rightarrow> None | x # ys \<Rightarrow> Some (fold max ys x))"

text \<open>Python's \<open>v or 0\<close> on an optional integer.\<close>

definition o_cero :: "int option \<Rightarrow> int" where
  "o_cero v = (case v of None \<Rightarrow> 0 | Some n \<Rightarrow> if n = 0 then 0 else n)"

text \<open>The fresh primary key that the storage gives a new row: one more than the largest.\<close>

definition nuevo_pk :: "nat list \<Rightarrow> nat" where
  "nuevo_pk pks = Suc (fold max pks 0)"

text \<open>\<open>Model.save()\<close> of an existing \<open>Reserva\<close>: an update of the row with its key.\<close>

definition guardar_reserva :: "Reserva \<Rightarrow> Reserva list \<Rightarrow> Reserva list" where
  "guardar_reserva r xs = map (\<lambda>x. if reserva_pk x = reserva_pk r then r else x) xs"

text \<open>
  What a \<open>BigIntegerField\<close> column (\<open>Reserva.reloj_lamport\<close>,
  \<open>Evento.ts_cliente\<close>) can hold: a signed integer of 64 bits; a nullable column
  also holds \<open>None\<close>.
\<close>

definition en_rango_bigint :: "int \<Rightarrow> bool" where
  "en_rango_bigint v \<longleftrightarrow> - (2 ^ 63) \<le> v \<and> v < 2 ^ 63"

definition bigint_nulo :: "int option \<Rightarrow> bool" where
  "bigint_nulo v = (case v of None \<Rightarrow> True | Some n \<Rightarrow> en_rango_bigint n)"

definition nombre_estado :: "estado_solicitud \<Rightarrow> string" where
  "nombre_estado e = (case e of EN_COLA \<Rightarrow> ''EN_COLA'' | ACTIVA \<Rightarrow> ''ACTIVA''
     | FINALIZADA \<Rightarrow> ''FINALIZADA'' | CANCELADA \<Rightarrow> ''CANCELADA''
     | RECHAZADA \<Rightarrow> ''RECHAZADA'' | EXPIRADA \<Rightarrow> ''EXPIRADA'')"

section \<open>The service (reservas/services.py)\<close>

text \<open>\<open>GestorRecursos._notificar_cambio_cola\<close>: nothing without a channel layer.\<close>

definition notificar_cambio_cola :: "capa_canales option \<Rightarrow> nat \<Rightarrow> efecto list \<times> (excepcion + unit)" where
  "notificar_cambio_cola channel_layer recurso_id =
     (case channel_layer of
        None \<Rightarrow> ([], Inr ())
      | Some group_send \<Rightarrow> ([GROUP_SEND recurso_id], group_send recurso_id))"

text \<open>
  The decorator \<open>transaction.atomic\<close> around a function body: the body runs on the
  database it finds; its writes are kept when it returns and dropped when it raises.
\<close>

definition atomic :: "(bd \<Rightarrow> efecto list \<times> (excepcion + bd \<times> 'a)) \<Rightarrow> bd \<Rightarrow> efecto list \<times> bd \<times> (excepcion + 'a)" where
  "atomic cuerpo db =
     (case cuerpo db of
        (tr, Inl e) \<Rightarrow> (ATOMIC_BEGIN # tr @ [ROLLBACK], db, Inl e)
      | (tr, Inr (db', a)) \<Rightarrow> (ATOMIC_BEGIN # tr @ [COMMIT], db', Inr a))"

text \<open>
  The Lamport clock of a new request (services.py, lines 40 to 45): one more than
  the larger of the timestamp of the client and the largest clock among the
  reservations of the resource.
\<close>

definition reloj_de_lamport :: "bd \<Rightarrow> nat \<Rightarrow> int option \<Rightarrow> int" where
  "reloj_de_lamport db recurso_id ts =
     (let last_ts = o_cero (agregar_max (map reloj_lamport
                      (filter (\<lambda>x. recurso x = recurso_id) (reservas db))))
      in max (o_cero ts) last_ts + 1)"

text \<open>
  The body of \<open>GestorRecursos.solicitar_reserva\<close>. \<open>ahora\<close> is the reading of
  \<open>timezone.now()\<close> during the call. \<open>Reserva.objects.create\<close> raises when the
  clock does not fit its column, and \<open>Evento.objects.create\<close> when the timestamp of
  the client does not; both come before the notification.
\<close>

definition solicitar_reserva_cuerpo ::
  "capa_canales option \<Rightarrow> nat \<Rightarrow> Cliente \<Rightarrow> int option \<Rightarrow> nat \<Rightarrow> bd \<Rightarrow> efecto list \<times> (excepcion + bd \<times> Reserva)" where
  "solicitar_reserva_cuerpo channel_layer recurso_id cli ts ahora db =
     (case recursos db recurso_id of
        None \<Rightarrow> ([SELECT_FOR_UPDATE recurso_id], Inl Recurso_DoesNotExist)
      | Some rc \<Rightarrow>
         (let reloj = reloj_de_lamport db recurso_id ts;
              prioridad = identificador_externo cli;
              est = (if estado_recurso rc = DISPONIBLE then ACTIVA else EN_COLA);
              rc1 = (if estado_recurso rc = DISPONIBLE then rc\<lparr>estado_recurso := OCUPADO\<rparr> else rc);
              res = \<lparr>reserva_pk = nuevo_pk (map reserva_pk (reservas db)),
                     recurso = recurso_id,
                     cliente = cliente_pk cli,
                     reloj_lamport = reloj,
                     prioridad_id = prioridad,
                     estado = est,
                     fecha_concesion = (if est = ACTIVA then Some ahora else None),
                     fecha_liberacion = None,
                     fecha_creacion = ahora\<rparr>
          in if \<not> en_rango_bigint reloj
             then ([SELECT_FOR_UPDATE recurso_id], Inl DataError)
             else
              (let rc2 = (if est = ACTIVA then rc1\<lparr>reserva_actual := Some (reserva_pk res)\<rparr>
                          else rc1);
                   ev = \<lparr>evento_pk = nuevo_pk (map evento_pk (eventos db)),
                         reserva = Some (reserva_pk res),
                         tipo_evento = ''SOLICITUD'',
                         ts_cliente = ts,
                         ts_servidor = ahora,
                         datos = [(''accion'', Texto ''solicitar''),
                                  (''estado_resultante'', Texto (nombre_estado est)),
                                  (''reloj_lamport'', Entero reloj),
                                  (''prioridad_id'', Texto prioridad),
                                  (''cliente'', Texto (identificador_externo cli)),
                                  (''recurso'', Texto (codigo rc2))]\<rparr>;
                   db1 = db\<lparr>recursos := (recursos db)(recurso_id \<mapsto> rc2),
                            reservas := reservas db @ [res],
                            eventos := eventos db @ [ev]\<rparr>
               in if \<not> bigint_nulo ts
                  then ([SELECT_FOR_UPDATE recurso_id], Inl DataError)
                  else case notificar_cambio_cola channel_layer recurso_id of
                    (tr, Inl e) \<Rightarrow> (SELECT_FOR_UPDATE recurso_id # tr, Inl e)
                  | (tr, Inr u) \<Rightarrow> (SELECT_FOR_UPDATE recurso_id # tr, Inr (db1, res)))))"

definition solicitar_reserva ::
  "capa_canales option \<Rightarrow> nat \<Rightarrow> Cliente \<Rightarrow> int option \<Rightarrow> nat \<Rightarrow> bd \<Rightarrow> efecto list \<times> bd \<times> (excepcion + Reserva)" where
  "solicitar_reserva channel_layer recurso_id cli ts ahora =
     atomic (solicitar_reserva_cuerpo channel_layer recurso_id cli ts ahora)"

text \<open>
  The body of \<open>GestorRecursos.liberar_reserva\<close>. Where several rows tie under an
  \<open>order_by\<close> the storage may return any of them; the model sorts stably, so the
  table order decides.
\<close>

definition liberar_reserva_cuerpo ::
  "capa_canales option \<Rightarrow> nat \<Rightarrow> Cliente \<Rightarrow> nat \<Rightarrow> bd \<Rightarrow> efecto list \<times> (excepcion + bd \<times> Reserva option)" where
  "liberar_reserva_cuerpo channel_layer recurso_id cli ahora db =
     (case recursos db recurso_id of
        None \<Rightarrow> ([SELECT_FOR_UPDATE recurso_id], Inl Recurso_DoesNotExist)
      | Some rc \<Rightarrow>
         (case primero (rev (sort_key fecha_creacion
                 (filter (\<lambda>x. recurso x = recurso_id \<and> cliente x = cliente_pk cli \<and> estado x = ACTIVA)
                    (reservas db)))) of
            None \<Rightarrow> ([SELECT_FOR_UPDATE recurso_id], Inr (db, None))
          | Some reserva0 \<Rightarrow>
             (let res = reserva0\<lparr>estado := FINALIZADA, fecha_liberacion := Some ahora\<rparr>;
                  db1 = db\<lparr>reservas := guardar_reserva res (reservas db)\<rparr>;
                  rc1 = rc\<lparr>estado_recurso := DISPONIBLE, reserva_actual := None\<rparr>;
                  ev_lib = \<lparr>evento_pk = nuevo_pk (map evento_pk (eventos db1)),
                            reserva = Some (reserva_pk res),
                            tipo_evento = ''LIBERACION'',
                            ts_cliente = None,
                            ts_servidor = ahora,
                            datos = [(''accion'', Texto ''liberar''),
                                     (''cliente'', Texto (identificador_externo cli)),
                                     (''recurso'', Texto (codigo rc1))]\<rparr>;
                  db2 = db1\<lparr>eventos := eventos db1 @ [ev_lib]\<rparr>;
                  promocion =
                    (case primero (sort_key (\<lambda>x. (reloj_lamport x, prioridad_id x))
                            (filter (\<lambda>x. recurso x = recurso_id \<and> estado x = EN_COLA) (reservas db2))) of
                       None \<Rightarrow> Inr (rc1, db2)
                     | Some siguiente0 \<Rightarrow>
                        (let siguiente = siguiente0\<lparr>estado := ACTIVA, fecha_concesion := Some ahora\<rparr>;
                             db3 = db2\<lparr>reservas := guardar_reserva siguiente (reservas db2)\<rparr>;
                             rc2 = rc1\<lparr>estado_recurso := OCUPADO,
                                       reserva_actual := Some (reserva_pk siguiente)\<rparr>
                         in case find (\<lambda>c. cliente_pk c = cliente siguiente) (clientes db3) of
                              None \<Rightarrow> Inl Cliente_DoesNotExist
                            | Some cli_sig \<Rightarrow>
                               Inr (rc2, db3\<lparr>eventos := eventos db3 @
                                  [\<lparr>evento_pk = nuevo_pk (map evento_pk (eventos db3)),
                                    reserva = Some (reserva_pk siguiente),
                                    tipo_evento = ''CONCESION'',
                                    ts_cliente = None,
                                    ts_servidor = ahora,
                                    datos = [(''accion'', Texto ''conceder_desde_cola''),
                                             (''cliente'', Texto (identificador_externo cli_sig)),
                                             (''recurso'', Texto (codigo rc2)),
                                             (''reloj_lamport'', Entero (reloj_lamport siguiente)),
                                             (''prioridad_id'', Texto (prioridad_id siguiente))]\<rparr>]\<rparr>)))
              in case promocion of
                   Inl e \<Rightarrow> ([SELECT_FOR_UPDATE recurso_id], Inl e)
                 | Inr (rcf, dbf) \<Rightarrow>
                    (let db4 = dbf\<lparr>recursos := (recursos dbf)(recurso_id \<mapsto> rcf)\<rparr>
                     in case notificar_cambio_cola channel_layer recurso_id of
                          (tr, Inl e) \<Rightarrow> (SELECT_FOR_UPDATE recurso_id # tr, Inl e)
                        | (tr, Inr u) \<Rightarrow> (SELECT_FOR_UPDATE recurso_id # tr, Inr (db4, Some res))))))"

definition liberar_reserva ::
  "capa_canales option \<Rightarrow> nat \<Rightarrow> Cliente \<Rightarrow> nat \<Rightarrow> bd \<Rightarrow> efecto list \<times> bd \<times> (excepcion + Reserva option)" where
  "liberar_reserva channel_layer recurso_id cli ahora =
     atomic (liberar_reserva_cuerpo channel_layer recurso_id cli ahora)"

section \<open>The JSON API (reservas/views.py)\<close>

text \<open>
  A view receives the HTTP method, the outcome of \<open>json.loads\<close> on the body
  (\<open>None\<close> for a \<open>JSONDecodeError\<close>) and the resource id of the URL. The body the
  docstrings ask for is an object with integer members; a member that is absent is
  \<open>None\<close>. The texts of the error responses are written without accents.
\<close>

record payload =
  p_cliente_id :: "int option"
  p_ts_cliente :: "int option"

datatype respuesta = JsonResponse "(string \<times> valor) list" | HttpResponseBadRequest string

definition get_cliente_or_404 :: "bd \<Rightarrow> int \<Rightarrow> excepcion + Cliente" where
  "get_cliente_or_404 db i =
     (case find (\<lambda>c. int (cliente_pk c) = i) (clientes db) of
        None \<Rightarrow> Inl Http404
      | Some c \<Rightarrow> Inr c)"

definition solicitar_reserva_api ::
  "capa_canales option \<Rightarrow> nat \<Rightarrow> string \<Rightarrow> payload option \<Rightarrow> nat \<Rightarrow> bd \<Rightarrow> efecto list \<times> bd \<times> (excepcion + respuesta)" where
  "solicitar_reserva_api channel_layer ahora metodo cuerpo recurso_id db =
     (if metodo \<noteq> ''POST'' then ([], db, Inr (HttpResponseBadRequest ''Metodo no permitido''))
      else case cuerpo of
        None \<Rightarrow> ([], db, Inr (HttpResponseBadRequest ''JSON invalido''))
      | Some p \<Rightarrow>
         (let ts = (case p_ts_cliente p of None \<Rightarrow> 0 | Some t \<Rightarrow> t)
          in case p_cliente_id p of
               None \<Rightarrow> ([], db, Inr (HttpResponseBadRequest ''cliente_id es requerido''))
             | Some cid \<Rightarrow>
                if cid = 0 then ([], db, Inr (HttpResponseBadRequest ''cliente_id es requerido''))
                else case get_cliente_or_404 db cid of
                  Inl e \<Rightarrow> ([], db, Inl e)
                | Inr cli \<Rightarrow>
                   (case solicitar_reserva channel_layer recurso_id cli (Some ts) ahora db of
                      (tr, db', Inl e) \<Rightarrow> (tr, db', Inl e)
                    | (tr, db', Inr res) \<Rightarrow>
                       (tr, db', Inr (JsonResponse
                          [(''reserva_id'', Entero (int (reserva_pk res))),
                           (''estado'', Texto (nombre_estado (estado res)))])))))"

definition liberar_reserva_api ::
  "capa_canales option \<Rightarrow> nat \<Rightarrow> string \<Rightarrow> payload option \<Rightarrow> nat \<Rightarrow> bd \<Rightarrow> efecto list \<times> bd \<times> (excepcion + respuesta)" where
  "liberar_reserva_api channel_layer ahora metodo cuerpo recurso_id db =
     (if metodo \<noteq> ''POST'' then ([], db, Inr (HttpResponseBadRequest ''Metodo no permitido''))
      else case cuerpo of
        None \<Rightarrow> ([], db, Inr (HttpResponseBadRequest ''JSON invalido''))
      | Some p \<Rightarrow>
         (case p_cliente_id p of
            None \<Rightarrow> ([], db, Inr (HttpResponseBadRequest ''cliente_id es requerido''))
          | Some cid \<Rightarrow>
             if cid = 0 then ([], db, Inr (HttpResponseBadRequest ''cliente_id es requerido''))
             else case get_cliente_or_404 db cid of
               Inl e \<Rightarrow> ([], db, Inl e)
             | Inr cli \<Rightarrow>
                (case liberar_reserva channel_layer recurso_id cli ahora db of
                   (tr, db', Inl e) \<Rightarrow> (tr, db', Inl e)
                 | (tr, db', Inr res) \<Rightarrow>
                    (tr, db', Inr (JsonResponse
                       [(''ok'', Booleano True),
                        (''liberada'', Booleano (res \<noteq> None))])))))"

text \<open>
  What the client of the API sees. The response classes carry their status; Django
  answers \<open>Http404\<close> with status 404 and any other exception that leaves a view with
  status 500.
\<close>

definition codigo_http :: "excepcion + respuesta \<Rightarrow> nat" where
  "codigo_http r =
     (case r of
        Inr (JsonResponse d) \<Rightarrow> 200
      | Inr (HttpResponseBadRequest m) \<Rightarrow> 400
      | Inl Http404 \<Rightarrow> 404
      | Inl e \<Rightarrow> 500)"

section \<open>Notions used by the properties\<close>

text \<open>The reservations of a resource that are ACTIVA.\<close>

definition activas :: "bd \<Rightarrow> nat \<Rightarrow> Reserva list" where
  "activas db rid = filter (\<lambda>x. recurso x = rid \<and> estado x = ACTIVA) (reservas db)"

text \<open>The reservations of a resource that wait EN_COLA.\<close>

definition en_cola :: "bd \<Rightarrow> nat \<Rightarrow> Reserva list" where
  "en_cola db rid = filter (\<lambda>x. recurso x = rid \<and> estado x = EN_COLA) (reservas db)"

text \<open>
  An initial state: no reservation yet, and every resource as the administration
  creates it, free or out of service, with no holder.
\<close>

definition inicial :: "bd \<Rightarrow> bool" where
  "inicial db \<longleftrightarrow> reservas db = [] \<and>
     (\<forall>rid rc. recursos db rid = Some rc \<longrightarrow>
        estado_recurso rc \<noteq> OCUPADO \<and> reserva_actual rc = None)"

text \<open>
  The states that sequences of requests and releases reach, whatever their arguments
  and whether the call returns or raises.
\<close>

inductive alcanzable :: "bd \<Rightarrow> bool" where
  alc_inicial: "inicial db \<Longrightarrow> alcanzable db"
| alc_solicitar: "alcanzable db \<Longrightarrow>
     alcanzable (fst (snd (solicitar_reserva channel_layer recurso_id cli ts ahora db)))"
| alc_liberar: "alcanzable db \<Longrightarrow>
     alcanzable (fst (snd (liberar_reserva channel_layer recurso_id cli ahora db)))"

text \<open>
  The invariant that requests and releases keep, stated on the set of ACTIVA
  reservations of a resource: a resource that is OCUPADO has exactly one, and
  \<open>reserva_actual\<close> is its key; any other resource has none and no holder. Primary
  keys of reservations are distinct.
\<close>

definition activas_de :: "Reserva set \<Rightarrow> nat \<Rightarrow> Reserva set" where
  "activas_de R rid = {x \<in> R. recurso x = rid \<and> estado x = ACTIVA}"

definition inv_recurso :: "Reserva set \<Rightarrow> Recurso \<Rightarrow> bool" where
  "inv_recurso A rc \<longleftrightarrow>
     (if estado_recurso rc = OCUPADO
      then \<exists>a. A = {a} \<and> reserva_actual rc = Some (reserva_pk a)
      else A = {} \<and> reserva_actual rc = None)"

definition invariante :: "bd \<Rightarrow> bool" where
  "invariante db \<longleftrightarrow> distinct (map reserva_pk (reservas db)) \<and>
     (\<forall>rid rc. recursos db rid = Some rc \<longrightarrow>
        inv_recurso (activas_de (set (reservas db)) rid) rc)"

text \<open>
  The ordering that the specification asks of a trace of effects: every
  \<open>GROUP_SEND\<close> happens while no atomic block is open, that is, after the commit
  or rollback of the block entered before it.
\<close>

fun notifica_fuera :: "bool \<Rightarrow> efecto list \<Rightarrow> bool" where
  "notifica_fuera abierta [] = True"
| "notifica_fuera abierta (ATOMIC_BEGIN # t) = notifica_fuera True t"
| "notifica_fuera abierta (COMMIT # t) = notifica_fuera False t"
| "notifica_fuera abierta (ROLLBACK # t) = notifica_fuera False t"
| "notifica_fuera abierta (GROUP_SEND g # t) = (\<not> abierta \<and> notifica_fuera abierta t)"
| "notifica_fuera abierta (SELECT_FOR_UPDATE r # t) = notifica_fuera abierta t"

definition commit_antes_de_notificar :: "efecto list \<Rightarrow> bool" where
  "commit_antes_de_notificar tr = notifica_fuera False tr"

text \<open>
  The order of events that the specification describes for a release with promotion:
  a CONCESION event is in the log before the first LIBERACION event.
\<close>

definition concesion_antes_de_liberacion :: "Evento list \<Rightarrow> bool" where
  "concesion_antes_de_liberacion evs \<longleftrightarrow>
     ''CONCESION'' \<in> set (map tipo_evento
        (takeWhile (\<lambda>e. tipo_evento e \<noteq> ''LIBERACION'') evs))"

section \<open>Example data\<close>

definition ej_cliA :: Cliente where
  "ej_cliA = \<lparr>cliente_pk = 1, identificador_externo = ''A'', nombre = None\<rparr>"

definition ej_cliB :: Cliente where
  "ej_cliB = \<lparr>cliente_pk = 2, identificador_externo = ''B'', nombre = None\<rparr>"

definition ej_cliC :: Cliente where
  "ej_cliC = \<lparr>cliente_pk = 3, identificador_externo = ''C'', nombre = Some ''Nodo C''\<rparr>"

definition ej_impresora :: Recurso where
  "ej_impresora = \<lparr>codigo = ''PRINTER1'', nombre_recurso = None, descripcion = None,
     estado_recurso = DISPONIBLE, reserva_actual = None, fecha_creacion_recurso = 0\<rparr>"

definition ej_escaner :: Recurso where
  "ej_escaner = \<lparr>codigo = ''SCANNER1'', nombre_recurso = None, descripcion = None,
     estado_recurso = FUERA_SERVICIO, reserva_actual = None, fecha_creacion_recurso = 0\<rparr>"

text \<open>A free printer (resource 1), a scanner out of service (resource 2), three clients.\<close>

definition ej_bd0 :: bd where
  "ej_bd0 = \<lparr>clientes = [ej_cliA, ej_cliB, ej_cliC],
     recursos = [1 \<mapsto> ej_impresora, 2 \<mapsto> ej_escaner], reservas = [], eventos = []\<rparr>"

definition ej_r1 :: Reserva where
  "ej_r1 = \<lparr>reserva_pk = 1, recurso = 1, cliente = 3, reloj_lamport = 1, prioridad_id = ''C'',
     estado = ACTIVA, fecha_concesion = Some 10, fecha_liberacion = None, fecha_creacion = 10\<rparr>"

definition ej_r2 :: Reserva where
  "ej_r2 = \<lparr>reserva_pk = 2, recurso = 1, cliente = 2, reloj_lamport = 5, prioridad_id = ''B'',
     estado = EN_COLA, fecha_concesion = None, fecha_liberacion = None, fecha_creacion = 11\<rparr>"

definition ej_r3 :: Reserva where
  "ej_r3 = \<lparr>reserva_pk = 3, recurso = 1, cliente = 1, reloj_lamport = 5, prioridad_id = ''A'',
     estado = EN_COLA, fecha_concesion = None, fecha_liberacion = None, fecha_creacion = 12\<rparr>"

definition ej_ocupada :: Recurso where
  "ej_ocupada = ej_impresora\<lparr>estado_recurso := OCUPADO, reserva_actual := Some 1\<rparr>"

text \<open>
  The printer held by client C, with two requests of equal logical time in the queue:
  the one of key B created before the one of key A.
\<close>

definition ej_bd_cola :: bd where
  "ej_bd_cola = \<lparr>clientes = [ej_cliA, ej_cliB, ej_cliC],
     recursos = [1 \<mapsto> ej_ocupada, 2 \<mapsto> ej_escaner],
     reservas = [ej_r1, ej_r2, ej_r3], eventos = []\<rparr>"

definition ej_capa_ok :: capa_canales where
  "ej_capa_ok = (\<lambda>grupo. Inr ())"

definition ej_capa_caida :: capa_canales where
  "ej_capa_caida = (\<lambda>grupo. Inl (ErrorDeEnvio ''ConnectionError''))"

section \<open>Auxiliary facts\<close>

lemmas solicitar_defs = solicitar_reserva_def atomic_def solicitar_reserva_cuerpo_def
  reloj_de_lamport_def en_rango_bigint_def bigint_nulo_def
  notificar_cambio_cola_def o_cero_def agregar_max_def nuevo_pk_def nombre_estado_def

lemmas liberar_defs = liberar_reserva_def atomic_def liberar_reserva_cuerpo_def
  notificar_cambio_cola_def nuevo_pk_def guardar_reserva_def primero_def



lemma primero_Some_mem: "primero xs = Some x \<Longrightarrow> x \<in> set xs"
  by (cases xs) (simp_all add: primero_def)

lemma primero_None: "primero xs = None \<longleftrightarrow> xs = []"
  by (cases xs) (simp_all add: primero_def)

lemma fold_max_ge: "(n::nat) \<in> set xs \<Longrightarrow> n \<le> fold max xs m"
proof (induction xs arbitrary: m)
  case Nil
  then show ?case by simp
next
  case (Cons a xs)
  have mono: "\<And>k. k \<le> fold max xs k"
  proof -
    fix k show "k \<le> fold max xs k"
    proof (induction xs arbitrary: k)
      case Nil show ?case by simp
    next
      case (Cons b ys)
      have "k \<le> max b k" by simp
      also have "\<dots> \<le> fold max ys (max b k)" by (rule Cons.IH)
      finally show ?case by simp
    qed
  qed
  show ?case
  proof (cases "n = a")
    case True
    have "a \<le> max a m" by simp
    also have "\<dots> \<le> fold max xs (max a m)" by (rule mono)
    finally show ?thesis using True by simp
  next
    case False
    with Cons.prems have "n \<in> set xs" by simp
    then show ?thesis using Cons.IH by simp
  qed
qed

lemma nuevo_pk_fresco: "nuevo_pk pks \<notin> set pks"
proof
  assume "nuevo_pk pks \<in> set pks"
  then have "nuevo_pk pks \<le> fold max pks 0" by (rule fold_max_ge)
  then show False by (simp add: nuevo_pk_def)
qed

lemma guardar_pks: "map reserva_pk (guardar_reserva r xs) = map reserva_pk xs"
  by (induction xs) (simp_all add: guardar_reserva_def)

lemma guardar_set:
  assumes "distinct (map reserva_pk xs)" and "a \<in> set xs" and "reserva_pk r = reserva_pk a"
  shows "set (guardar_reserva r xs) = insert r (set xs - {a})"
  using assms
proof (induction xs)
  case Nil
  then show ?case by simp
next
  case (Cons x xs)
  show ?case
  proof (cases "x = a")
    case True
    have "reserva_pk a \<notin> set (map reserva_pk xs)" using Cons.prems True by simp
    then have "\<forall>y \<in> set xs. reserva_pk y \<noteq> reserva_pk r"
      using Cons.prems(3) by (metis imageI set_map)
    then have "guardar_reserva r xs = xs"
      by (simp add: guardar_reserva_def map_idI)
    moreover have "a \<notin> set xs" using Cons.prems True by auto
    ultimately show ?thesis using True Cons.prems
      by (auto simp: guardar_reserva_def)
  next
    case False
    with Cons.prems have ax: "a \<in> set xs" by simp
    then have "reserva_pk x \<noteq> reserva_pk a" using Cons.prems by force
    moreover have "set (guardar_reserva r xs) = insert r (set xs - {a})"
      using Cons.IH Cons.prems ax by simp
    ultimately show ?thesis using False Cons.prems
      by (auto simp: guardar_reserva_def)
  qed
qed

text \<open>The shape of the database after a request.\<close>

lemma solicitar_reserva_forma:
  "fst (snd (solicitar_reserva capa rid cli ts ahora db)) = db \<or>
   (\<exists>rc res. recursos db rid = Some rc \<and> recurso res = rid \<and>
      reserva_pk res = nuevo_pk (map reserva_pk (reservas db)) \<and>
      estado res = (if estado_recurso rc = DISPONIBLE then ACTIVA else EN_COLA) \<and>
      reservas (fst (snd (solicitar_reserva capa rid cli ts ahora db))) = reservas db @ [res] \<and>
      recursos (fst (snd (solicitar_reserva capa rid cli ts ahora db))) =
        (recursos db)(rid \<mapsto> (if estado_recurso rc = DISPONIBLE
           then rc\<lparr>estado_recurso := OCUPADO, reserva_actual := Some (reserva_pk res)\<rparr> else rc)))"
  by (cases "notificar_cambio_cola capa rid")
     (auto simp: solicitar_reserva_def atomic_def solicitar_reserva_cuerpo_def Let_def
        split: option.splits sum.splits)

lemma primero_mas_reciente:
  "primero (rev (sort_key f (filter P xs))) = Some a \<Longrightarrow> a \<in> set xs \<and> P a"
  by (drule primero_Some_mem) simp

lemma primero_cola:
  "primero (sort_key f (filter P xs)) = Some a \<Longrightarrow> a \<in> set xs \<and> P a"
  by (drule primero_Some_mem) simp

text \<open>The shape of the outcome of a release.\<close>

lemma liberar_reserva_forma:
  "(\<forall>l. snd (snd (liberar_reserva capa rid cli ahora db)) \<noteq> Inr (Some l)) \<and>
      fst (snd (liberar_reserva capa rid cli ahora db)) = db \<or>
   (\<exists>rc lib. recursos db rid = Some rc \<and> lib \<in> set (reservas db) \<and> recurso lib = rid \<and>
      cliente lib = cliente_pk cli \<and> estado lib = ACTIVA \<and>
      snd (snd (liberar_reserva capa rid cli ahora db)) =
        Inr (Some (lib\<lparr>estado := FINALIZADA, fecha_liberacion := Some ahora\<rparr>)) \<and>
      (case primero (sort_key (\<lambda>x. (reloj_lamport x, prioridad_id x))
              (filter (\<lambda>x. recurso x = rid \<and> estado x = EN_COLA)
                 (guardar_reserva (lib\<lparr>estado := FINALIZADA, fecha_liberacion := Some ahora\<rparr>)
                    (reservas db)))) of
         None \<Rightarrow>
           reservas (fst (snd (liberar_reserva capa rid cli ahora db))) =
             guardar_reserva (lib\<lparr>estado := FINALIZADA, fecha_liberacion := Some ahora\<rparr>) (reservas db) \<and>
           recursos (fst (snd (liberar_reserva capa rid cli ahora db))) =
             (recursos db)(rid \<mapsto> rc\<lparr>estado_recurso := DISPONIBLE, reserva_actual := None\<rparr>) \<and>
           (\<exists>e. eventos (fst (snd (liberar_reserva capa rid cli ahora db))) = eventos db @ [e] \<and>
              tipo_evento e = ''LIBERACION'' \<and> reserva e = Some (reserva_pk lib))
       | Some s \<Rightarrow>
           reservas (fst (snd (liberar_reserva capa rid cli ahora db))) =
             guardar_reserva (s\<lparr>estado := ACTIVA, fecha_concesion := Some ahora\<rparr>)
               (guardar_reserva (lib\<lparr>estado := FINALIZADA, fecha_liberacion := Some ahora\<rparr>) (reservas db)) \<and>
           recursos (fst (snd (liberar_reserva capa rid cli ahora db))) =
             (recursos db)(rid \<mapsto> rc\<lparr>estado_recurso := OCUPADO, reserva_actual := Some (reserva_pk s)\<rparr>) \<and>
           (\<exists>e1 e2. eventos (fst (snd (liberar_reserva capa rid cli ahora db))) = eventos db @ [e1, e2] \<and>
              tipo_evento e1 = ''LIBERACION'' \<and> reserva e1 = Some (reserva_pk lib) \<and>
              tipo_evento e2 = ''CONCESION'' \<and> reserva e2 = Some (reserva_pk s))))"
  by (cases "notificar_cambio_cola capa rid")
     (auto simp: liberar_reserva_def atomic_def liberar_reserva_cuerpo_def Let_def
        dest!: primero_mas_reciente
        split: option.splits sum.splits)



lemma activas_de_insert:
  "activas_de (insert r R) rid =
     (if recurso r = rid \<and> estado r = ACTIVA then insert r (activas_de R rid) else activas_de R rid)"
  by (auto simp: activas_de_def)

lemma activas_de_quitar: "activas_de (R - {a}) rid = activas_de R rid - {a}"
  by (auto simp: activas_de_def)

lemma activas_de_no_activa: "estado a \<noteq> ACTIVA \<Longrightarrow> activas_de R rid - {a} = activas_de R rid"
  by (auto simp: activas_de_def)

lemma activas_de_otro: "recurso a \<noteq> rid \<Longrightarrow> activas_de R rid - {a} = activas_de R rid"
  by (auto simp: activas_de_def)

lemma invariante_inicial: "inicial db \<Longrightarrow> invariante db"
  by (simp add: inicial_def invariante_def inv_recurso_def activas_de_def)


lemma invariante_solicitar:
  assumes "invariante db"
  shows "invariante (fst (snd (solicitar_reserva capa rid cli ts ahora db)))"
proof -
  let ?db' = "fst (snd (solicitar_reserva capa rid cli ts ahora db))"
  let ?R = "set (reservas db)"
  from solicitar_reserva_forma [of capa rid cli ts ahora db]
  consider (igual) "?db' = db"
    | (nueva) rc res where "recursos db rid = Some rc" "recurso res = rid"
        "reserva_pk res = nuevo_pk (map reserva_pk (reservas db))"
        "estado res = (if estado_recurso rc = DISPONIBLE then ACTIVA else EN_COLA)"
        "reservas ?db' = reservas db @ [res]"
        "recursos ?db' = (recursos db)(rid \<mapsto> (if estado_recurso rc = DISPONIBLE
           then rc\<lparr>estado_recurso := OCUPADO, reserva_actual := Some (reserva_pk res)\<rparr> else rc))"
    by blast
  then show ?thesis
  proof cases
    case igual
    with assms show ?thesis by simp
  next
    case (nueva rc res)
    have fresh: "reserva_pk res \<notin> set (map reserva_pk (reservas db))"
      unfolding nueva(3) by (rule nuevo_pk_fresco)
    have dist: "distinct (map reserva_pk (reservas ?db'))"
      using assms fresh by (simp add: nueva(5) invariante_def)
    have R': "set (reservas ?db') = insert res ?R"
      by (simp add: nueva(5))
    have inv_all: "\<And>rid' rc'. recursos db rid' = Some rc' \<Longrightarrow> inv_recurso (activas_de ?R rid') rc'"
      using assms by (simp add: invariante_def)
    have "inv_recurso (activas_de (set (reservas ?db')) rid') rc'"
      if h: "recursos ?db' rid' = Some rc'" for rid' rc'
    proof (cases "rid' = rid")
      case True
      note ir = inv_all [OF nueva(1)]
      show ?thesis
      proof (cases "estado_recurso rc = DISPONIBLE")
        case d: True
        with ir have vacio: "activas_de ?R rid = {}" by (simp add: inv_recurso_def)
        from h True d nueva(6)
        have "rc' = rc\<lparr>estado_recurso := OCUPADO, reserva_actual := Some (reserva_pk res)\<rparr>"
          by simp
        moreover have "activas_de (set (reservas ?db')) rid = {res}"
          using d nueva(2,4) vacio by (simp add: R' activas_de_insert)
        ultimately show ?thesis using True by (simp add: inv_recurso_def)
      next
        case nd: False
        from h True nd nueva(6) have "rc' = rc" by simp
        moreover have "activas_de (set (reservas ?db')) rid = activas_de ?R rid"
          using nd nueva(4) by (simp add: R' activas_de_insert)
        ultimately show ?thesis using True ir by simp
      qed
    next
      case False
      with h nueva(6) have "recursos db rid' = Some rc'" by simp
      then have "inv_recurso (activas_de ?R rid') rc'" by (rule inv_all)
      moreover have "activas_de (set (reservas ?db')) rid' = activas_de ?R rid'"
        using False nueva(2) by (simp add: R' activas_de_insert)
      ultimately show ?thesis by simp
    qed
    with dist show ?thesis by (simp add: invariante_def)
  qed
qed

lemma liberar_reserva_casos:
  fixes capa rid cli ahora db
  defines "r \<equiv> liberar_reserva capa rid cli ahora db"
  obtains (sin_cambio) "\<forall>l. snd (snd r) \<noteq> Inr (Some l)" and "fst (snd r) = db"
  | (sin_cola) rc lib e where "recursos db rid = Some rc" and "lib \<in> set (reservas db)"
      and "recurso lib = rid" and "cliente lib = cliente_pk cli" and "estado lib = ACTIVA"
      and "snd (snd r) = Inr (Some (lib\<lparr>estado := FINALIZADA, fecha_liberacion := Some ahora\<rparr>))"
      and "primero (sort_key (\<lambda>x. (reloj_lamport x, prioridad_id x))
              (filter (\<lambda>x. recurso x = rid \<and> estado x = EN_COLA)
                 (guardar_reserva (lib\<lparr>estado := FINALIZADA, fecha_liberacion := Some ahora\<rparr>)
                    (reservas db)))) = None"
      and "reservas (fst (snd r)) =
             guardar_reserva (lib\<lparr>estado := FINALIZADA, fecha_liberacion := Some ahora\<rparr>) (reservas db)"
      and "recursos (fst (snd r)) =
             (recursos db)(rid \<mapsto> rc\<lparr>estado_recurso := DISPONIBLE, reserva_actual := None\<rparr>)"
      and "eventos (fst (snd r)) = eventos db @ [e]"
      and "tipo_evento e = ''LIBERACION''" and "reserva e = Some (reserva_pk lib)"
  | (promocion) rc lib s e1 e2 where "recursos db rid = Some rc" and "lib \<in> set (reservas db)"
      and "recurso lib = rid" and "cliente lib = cliente_pk cli" and "estado lib = ACTIVA"
      and "snd (snd r) = Inr (Some (lib\<lparr>estado := FINALIZADA, fecha_liberacion := Some ahora\<rparr>))"
      and "primero (sort_key (\<lambda>x. (reloj_lamport x, prioridad_id x))
              (filter (\<lambda>x. recurso x = rid \<and> estado x = EN_COLA)
                 (guardar_reserva (lib\<lparr>estado := FINALIZADA, fecha_liberacion := Some ahora\<rparr>)
                    (reservas db)))) = Some s"
      and "reservas (fst (snd r)) =
             guardar_reserva (s\<lparr>estado := ACTIVA, fecha_concesion := Some ahora\<rparr>)
               (guardar_reserva (lib\<lparr>estado := FINALIZADA, fecha_liberacion := Some ahora\<rparr>) (reservas db))"
      and "recursos (fst (snd r)) =
             (recursos db)(rid \<mapsto> rc\<lparr>estado_recurso := OCUPADO, reserva_actual := Some (reserva_pk s)\<rparr>)"
      and "eventos (fst (snd r)) = eventos db @ [e1, e2]"
      and "tipo_evento e1 = ''LIBERACION''" and "reserva e1 = Some (reserva_pk lib)"
      and "tipo_evento e2 = ''CONCESION''" and "reserva e2 = Some (reserva_pk s)"
proof -
  note forma = liberar_reserva_forma [of capa rid cli ahora db, folded r_def]
  show thesis
  proof (cases "\<forall>l. snd (snd r) \<noteq> Inr (Some l)")
    case True
    with forma have "fst (snd r) = db" by blast
    with True show thesis by (rule sin_cambio)
  next
    case False
    with forma obtain rc lib where
      h: "recursos db rid = Some rc" "lib \<in> set (reservas db)" "recurso lib = rid"
         "cliente lib = cliente_pk cli" "estado lib = ACTIVA"
         "snd (snd r) = Inr (Some (lib\<lparr>estado := FINALIZADA, fecha_liberacion := Some ahora\<rparr>))"
      and c: "(case primero (sort_key (\<lambda>x. (reloj_lamport x, prioridad_id x))
              (filter (\<lambda>x. recurso x = rid \<and> estado x = EN_COLA)
                 (guardar_reserva (lib\<lparr>estado := FINALIZADA, fecha_liberacion := Some ahora\<rparr>)
                    (reservas db)))) of
         None \<Rightarrow>
           reservas (fst (snd r)) =
             guardar_reserva (lib\<lparr>estado := FINALIZADA, fecha_liberacion := Some ahora\<rparr>) (reservas db) \<and>
           recursos (fst (snd r)) =
             (recursos db)(rid \<mapsto> rc\<lparr>estado_recurso := DISPONIBLE, reserva_actual := None\<rparr>) \<and>
           (\<exists>e. eventos (fst (snd r)) = eventos db @ [e] \<and>
              tipo_evento e = ''LIBERACION'' \<and> reserva e = Some (reserva_pk lib))
       | Some s \<Rightarrow>
           reservas (fst (snd r)) =
             guardar_reserva (s\<lparr>estado := ACTIVA, fecha_concesion := Some ahora\<rparr>)
               (guardar_reserva (lib\<lparr>estado := FINALIZADA, fecha_liberacion := Some ahora\<rparr>) (reservas db)) \<and>
           recursos (fst (snd r)) =
             (recursos db)(rid \<mapsto> rc\<lparr>estado_recurso := OCUPADO, reserva_actual := Some (reserva_pk s)\<rparr>) \<and>
           (\<exists>e1 e2. eventos (fst (snd r)) = eventos db @ [e1, e2] \<and>
              tipo_evento e1 = ''LIBERACION'' \<and> reserva e1 = Some (reserva_pk lib) \<and>
              tipo_evento e2 = ''CONCESION'' \<and> reserva e2 = Some (reserva_pk s)))"
      by blast
    show thesis
    proof (cases "primero (sort_key (\<lambda>x. (reloj_lamport x, prioridad_id x))
              (filter (\<lambda>x. recurso x = rid \<and> estado x = EN_COLA)
                 (guardar_reserva (lib\<lparr>estado := FINALIZADA, fecha_liberacion := Some ahora\<rparr>)
                    (reservas db))))")
      case None
      with c obtain e where "reservas (fst (snd r)) =
             guardar_reserva (lib\<lparr>estado := FINALIZADA, fecha_liberacion := Some ahora\<rparr>) (reservas db)"
         "recursos (fst (snd r)) =
             (recursos db)(rid \<mapsto> rc\<lparr>estado_recurso := DISPONIBLE, reserva_actual := None\<rparr>)"
         "eventos (fst (snd r)) = eventos db @ [e]"
         "tipo_evento e = ''LIBERACION''" "reserva e = Some (reserva_pk lib)"
        by auto
      with h None show thesis by (rule sin_cola)
    next
      case (Some s)
      with c obtain e1 e2 where "reservas (fst (snd r)) =
             guardar_reserva (s\<lparr>estado := ACTIVA, fecha_concesion := Some ahora\<rparr>)
               (guardar_reserva (lib\<lparr>estado := FINALIZADA, fecha_liberacion := Some ahora\<rparr>) (reservas db))"
         "recursos (fst (snd r)) =
             (recursos db)(rid \<mapsto> rc\<lparr>estado_recurso := OCUPADO, reserva_actual := Some (reserva_pk s)\<rparr>)"
         "eventos (fst (snd r)) = eventos db @ [e1, e2]"
         "tipo_evento e1 = ''LIBERACION''" "reserva e1 = Some (reserva_pk lib)"
         "tipo_evento e2 = ''CONCESION''" "reserva e2 = Some (reserva_pk s)"
        by auto
      with h Some show thesis by (rule promocion)
    qed
  qed
qed


lemma invariante_liberar:
  assumes "invariante db"
  shows "invariante (fst (snd (liberar_reserva capa rid cli ahora db)))"
proof (cases rule: liberar_reserva_casos [of capa rid cli ahora db])
  case sin_cambio
  with assms show ?thesis by simp
next
  case (sin_cola rc lib e)
  let ?db' = "fst (snd (liberar_reserva capa rid cli ahora db))"
  let ?R = "set (reservas db)"
  let ?lib' = "lib\<lparr>estado := FINALIZADA, fecha_liberacion := Some ahora\<rparr>"
  have dist: "distinct (map reserva_pk (reservas db))"
    using assms by (simp add: invariante_def)
  have inv_all: "\<And>rid' rc'. recursos db rid' = Some rc' \<Longrightarrow> inv_recurso (activas_de ?R rid') rc'"
    using assms by (simp add: invariante_def)
  have R': "set (reservas ?db') = insert ?lib' (?R - {lib})"
    unfolding sin_cola(8) using dist sin_cola(2) by (intro guardar_set) simp_all
  have dist': "distinct (map reserva_pk (reservas ?db'))"
    unfolding sin_cola(8) using dist by (simp add: guardar_pks)
  have act: "activas_de (set (reservas ?db')) rid' = activas_de ?R rid' - {lib}" for rid'
    by (simp add: R' activas_de_insert activas_de_quitar)
  have lib_act: "lib \<in> activas_de ?R rid"
    using sin_cola(2,3,5) by (simp add: activas_de_def)
  have vacio: "activas_de ?R rid - {lib} = {}"
    using inv_all [OF sin_cola(1)] lib_act by (auto simp: inv_recurso_def split: if_splits)
  have "inv_recurso (activas_de (set (reservas ?db')) rid') rc'"
    if h: "recursos ?db' rid' = Some rc'" for rid' rc'
  proof (cases "rid' = rid")
    case True
    with h sin_cola(9) have "rc' = rc\<lparr>estado_recurso := DISPONIBLE, reserva_actual := None\<rparr>"
      by simp
    then show ?thesis using True vacio by (simp add: act inv_recurso_def)
  next
    case False
    with h sin_cola(9) have "recursos db rid' = Some rc'" by simp
    then have "inv_recurso (activas_de ?R rid') rc'" by (rule inv_all)
    moreover have "activas_de ?R rid' - {lib} = activas_de ?R rid'"
      using False sin_cola(3) by (intro activas_de_otro) simp
    ultimately show ?thesis by (simp add: act)
  qed
  with dist' show ?thesis by (simp add: invariante_def)
next
  case (promocion rc lib s e1 e2)
  let ?db' = "fst (snd (liberar_reserva capa rid cli ahora db))"
  let ?R = "set (reservas db)"
  let ?lib' = "lib\<lparr>estado := FINALIZADA, fecha_liberacion := Some ahora\<rparr>"
  let ?rs1 = "guardar_reserva ?lib' (reservas db)"
  let ?s' = "s\<lparr>estado := ACTIVA, fecha_concesion := Some ahora\<rparr>"
  have dist: "distinct (map reserva_pk (reservas db))"
    using assms by (simp add: invariante_def)
  have inv_all: "\<And>rid' rc'. recursos db rid' = Some rc' \<Longrightarrow> inv_recurso (activas_de ?R rid') rc'"
    using assms by (simp add: invariante_def)
  have R1: "set ?rs1 = insert ?lib' (?R - {lib})"
    using dist promocion(2) by (intro guardar_set) simp_all
  have dist1: "distinct (map reserva_pk ?rs1)"
    using dist by (simp add: guardar_pks)
  from promocion(7) have s: "s \<in> set ?rs1" "recurso s = rid" "estado s = EN_COLA"
    by (auto dest: primero_cola)
  have R': "set (reservas ?db') = insert ?s' (set ?rs1 - {s})"
    unfolding promocion(8) using dist1 s(1) by (intro guardar_set) simp_all
  have dist': "distinct (map reserva_pk (reservas ?db'))"
    unfolding promocion(8) using dist1 by (simp add: guardar_pks)
  have s_no: "activas_de X rid' - {s} = activas_de X rid'" for X rid'
    using s(3) by (intro activas_de_no_activa) simp
  have act1: "activas_de (set ?rs1) rid' = activas_de ?R rid' - {lib}" for rid'
    by (simp add: R1 activas_de_insert activas_de_quitar)
  have act: "activas_de (set (reservas ?db')) rid' =
      (if rid' = rid then insert ?s' (activas_de ?R rid' - {lib}) else activas_de ?R rid' - {lib})" for rid'
  proof -
    have "activas_de (set ?rs1 - {s}) rid' = activas_de (set ?rs1) rid' - {s}"
      by (rule activas_de_quitar)
    also have "\<dots> = activas_de (set ?rs1) rid'" by (rule s_no)
    also have "\<dots> = activas_de ?R rid' - {lib}" by (rule act1)
    finally have e1: "activas_de (set ?rs1 - {s}) rid' = activas_de ?R rid' - {lib}" .
    have e2: "activas_de (insert ?s' (set ?rs1 - {s})) rid' =
        (if rid' = rid then insert ?s' (activas_de (set ?rs1 - {s}) rid')
         else activas_de (set ?rs1 - {s}) rid')"
      using s(2) by (auto simp: activas_de_insert)
    show ?thesis by (simp only: R' e2 e1)
  qed
  have lib_act: "lib \<in> activas_de ?R rid"
    using promocion(2,3,5) by (simp add: activas_de_def)
  have vacio: "activas_de ?R rid - {lib} = {}"
    using inv_all [OF promocion(1)] lib_act by (auto simp: inv_recurso_def split: if_splits)
  have "inv_recurso (activas_de (set (reservas ?db')) rid') rc'"
    if h: "recursos ?db' rid' = Some rc'" for rid' rc'
  proof (cases "rid' = rid")
    case True
    with h promocion(9)
    have "rc' = rc\<lparr>estado_recurso := OCUPADO, reserva_actual := Some (reserva_pk s)\<rparr>"
      by simp
    moreover have "activas_de (set (reservas ?db')) rid = {?s'}"
      by (simp only: act vacio) simp
    ultimately show ?thesis using True by (simp add: inv_recurso_def)
  next
    case False
    with h promocion(9) have "recursos db rid' = Some rc'" by simp
    then have "inv_recurso (activas_de ?R rid') rc'" by (rule inv_all)
    moreover have "activas_de ?R rid' - {lib} = activas_de ?R rid'"
      using False promocion(3) by (intro activas_de_otro) simp
    ultimately show ?thesis using False by (simp add: act)
  qed
  with dist' show ?thesis by (simp add: invariante_def)
qed

lemma alcanzable_invariante: "alcanzable db \<Longrightarrow> invariante db"
  by (induction rule: alcanzable.induct)
     (simp_all add: invariante_inicial invariante_solicitar invariante_liberar)

lemma lista_unica:
  assumes "distinct ys" and "set ys = {a}"
  shows "ys = [a]"
proof -
  have "length ys = card (set ys)" using assms(1) by (simp add: distinct_card)
  then have "length ys = 1" using assms(2) by simp
  then obtain y where "ys = [y]" by (cases ys) auto
  with assms(2) show ?thesis by simp
qed

lemma primero_sort_key_min:
  assumes "primero (sort_key f xs) = Some s"
  shows "s \<in> set xs \<and> (\<forall>x \<in> set xs. f s \<le> f x)"
proof -
  from assms obtain rest where eq: "sort_key f xs = s # rest"
    by (cases "sort_key f xs") (simp_all add: primero_def)
  have "sorted (map f (sort_key f xs))" by (rule sorted_sort_key)
  then have "\<forall>y \<in> set rest. f s \<le> f y" by (simp add: eq)
  moreover have "set xs = insert s (set rest)"
    using set_sort [of f xs] by (simp add: eq)
  ultimately show ?thesis by auto
qed

lemma par_menor_igual:
  "((a::int, b::string) \<le> (c, d)) = (a < c \<or> (a = c \<and> b \<le> d))"
  by (auto simp: less_eq_prod_def)

text \<open>What a release does when it finishes a reservation while others wait in the queue.\<close>

lemma liberar_reserva_promueve:
  assumes ok: "snd (snd (liberar_reserva capa rid cli ahora db)) = Inr (Some lib)"
    and dist: "distinct (map reserva_pk (reservas db))"
    and cola: "en_cola db rid \<noteq> []"
  obtains rc s e1 e2 where "recursos db rid = Some rc"
    and "s \<in> set (en_cola db rid)"
    and "\<forall>q \<in> set (en_cola db rid).
           (reloj_lamport s, prioridad_id s) \<le> (reloj_lamport q, prioridad_id q)"
    and "s\<lparr>estado := ACTIVA, fecha_concesion := Some ahora\<rparr>
           \<in> set (reservas (fst (snd (liberar_reserva capa rid cli ahora db))))"
    and "recursos (fst (snd (liberar_reserva capa rid cli ahora db))) =
           (recursos db)(rid \<mapsto> rc\<lparr>estado_recurso := OCUPADO, reserva_actual := Some (reserva_pk s)\<rparr>)"
    and "eventos (fst (snd (liberar_reserva capa rid cli ahora db))) = eventos db @ [e1, e2]"
    and "tipo_evento e1 = ''LIBERACION''" and "reserva e1 = Some (reserva_pk lib)"
    and "tipo_evento e2 = ''CONCESION''" and "reserva e2 = Some (reserva_pk s)"
proof (cases rule: liberar_reserva_casos [of capa rid cli ahora db])
  case sin_cambio
  with ok show ?thesis by simp
next
  case (sin_cola rc lib0 e)
  let ?lib' = "lib0\<lparr>estado := FINALIZADA, fecha_liberacion := Some ahora\<rparr>"
  let ?rs1 = "guardar_reserva ?lib' (reservas db)"
  have R1: "set ?rs1 = insert ?lib' (set (reservas db) - {lib0})"
    using dist sin_cola(2) by (intro guardar_set) simp_all
  let ?F = "filter (\<lambda>x. recurso x = rid \<and> estado x = EN_COLA) ?rs1"
  from cola obtain q where qc: "q \<in> set (en_cola db rid)"
    by (cases "en_cola db rid") auto
  then have q: "q \<in> set (reservas db)" "recurso q = rid" "estado q = EN_COLA"
    by (simp_all add: en_cola_def)
  have "q \<noteq> lib0"
  proof
    assume "q = lib0"
    then have "estado q = ACTIVA" using sin_cola(5) by simp
    with q(3) show False by simp
  qed
  then have "q \<in> set ?rs1" unfolding R1 using q(1) by simp
  then have "q \<in> set ?F" using q(2,3) by simp
  then have "0 < length ?F" by (rule length_pos_if_in_set)
  moreover have "length (sort_key (\<lambda>x. (reloj_lamport x, prioridad_id x)) ?F) = length ?F"
    by (rule length_sort)
  moreover have "sort_key (\<lambda>x. (reloj_lamport x, prioridad_id x)) ?F = []"
    using sin_cola(7) by (simp only: primero_None)
  ultimately show ?thesis by simp
next
  case (promocion rc lib0 s e1 e2)
  let ?lib' = "lib0\<lparr>estado := FINALIZADA, fecha_liberacion := Some ahora\<rparr>"
  let ?rs1 = "guardar_reserva ?lib' (reservas db)"
  let ?s' = "s\<lparr>estado := ACTIVA, fecha_concesion := Some ahora\<rparr>"
  have R1: "set ?rs1 = insert ?lib' (set (reservas db) - {lib0})"
    using dist promocion(2) by (intro guardar_set) simp_all
  have dist1: "distinct (map reserva_pk ?rs1)"
    using dist by (simp add: guardar_pks)
  have cola1: "set (filter (\<lambda>x. recurso x = rid \<and> estado x = EN_COLA) ?rs1) = set (en_cola db rid)"
    using promocion(5) by (auto simp: R1 en_cola_def)
  from primero_sort_key_min [OF promocion(7)]
  have s: "s \<in> set (en_cola db rid)"
    and smin: "\<forall>q \<in> set (en_cola db rid).
           (reloj_lamport s, prioridad_id s) \<le> (reloj_lamport q, prioridad_id q)"
    unfolding cola1 by simp_all
  have "s \<in> set ?rs1" using primero_cola [OF promocion(7)] by simp
  then have "set (guardar_reserva ?s' ?rs1) = insert ?s' (set ?rs1 - {s})"
    using dist1 by (intro guardar_set) simp_all
  then have s': "?s' \<in> set (reservas (fst (snd (liberar_reserva capa rid cli ahora db))))"
    by (simp add: promocion(8))
  have "Inr (Some lib) = (Inr (Some ?lib') :: excepcion + Reserva option)"
    using ok [symmetric] promocion(6) by (rule trans)
  then have "lib = ?lib'" by (simp only: sum.inject option.inject)
  then have "reserva_pk lib = reserva_pk ?lib'" by (rule arg_cong)
  then have pk: "reserva_pk lib = reserva_pk lib0" by simp
  show ?thesis
    using promocion(1) s smin s' promocion(9,10,11) promocion(12) [folded pk] promocion(13,14)
    by (rule that)
qed


lemma liberar_reserva_sin_activa:
  assumes "recursos db rid = Some rc"
    and "\<forall>x \<in> set (reservas db).
           \<not> (recurso x = rid \<and> cliente x = cliente_pk cli \<and> estado x = ACTIVA)"
  shows "liberar_reserva capa rid cli ahora db =
           ([ATOMIC_BEGIN, SELECT_FOR_UPDATE rid, COMMIT], db, Inr None)"
proof -
  have "filter (\<lambda>x. recurso x = rid \<and> cliente x = cliente_pk cli \<and> estado x = ACTIVA)
          (reservas db) = []"
    using assms(2) by (simp only: filter_empty_conv)
  then show ?thesis
    using assms(1)
    by (simp add: liberar_reserva_def atomic_def liberar_reserva_cuerpo_def primero_def)
qed

lemma solicitar_reserva_envio_falla:
  assumes "recursos db rid = Some rc" and "gs rid = Inl e"
    and "en_rango_bigint (reloj_de_lamport db rid ts)" and "bigint_nulo ts"
  shows "solicitar_reserva (Some gs) rid cli ts ahora db =
           ([ATOMIC_BEGIN, SELECT_FOR_UPDATE rid, GROUP_SEND rid, ROLLBACK], db, Inl e)"
  using assms
  by (simp add: solicitar_reserva_def atomic_def solicitar_reserva_cuerpo_def
        notificar_cambio_cola_def Let_def)

lemma solicitar_reserva_envio_ok:
  assumes "recursos db rid = Some rc" and "gs rid = Inr ()"
    and "en_rango_bigint (reloj_de_lamport db rid ts)" and "bigint_nulo ts"
  shows "solicitar_reserva (Some gs) rid cli ts ahora db =
           ([ATOMIC_BEGIN, SELECT_FOR_UPDATE rid, GROUP_SEND rid, COMMIT],
            fst (snd (solicitar_reserva None rid cli ts ahora db)),
            snd (snd (solicitar_reserva None rid cli ts ahora db)))"
  using assms
  by (simp add: solicitar_reserva_def atomic_def solicitar_reserva_cuerpo_def
        notificar_cambio_cola_def Let_def)

lemma solicitar_reserva_sin_capa:
  assumes "recursos db rid = Some rc"
    and "en_rango_bigint (reloj_de_lamport db rid ts)" and "bigint_nulo ts"
  shows "\<exists>db' res. solicitar_reserva None rid cli ts ahora db =
           ([ATOMIC_BEGIN, SELECT_FOR_UPDATE rid, COMMIT], db', Inr res)"
  using assms
  by (simp add: solicitar_reserva_def atomic_def solicitar_reserva_cuerpo_def
        notificar_cambio_cola_def Let_def)




lemma guardar_subconjunto: "set (guardar_reserva r xs) \<subseteq> insert r (set xs)"
  by (auto simp: guardar_reserva_def)

text \<open>
  Without a channel layer, a release on an existing resource returns when the
  reservations refer to clients of the table.
\<close>

lemma liberar_reserva_sin_capa:
  assumes rc: "recursos db rid = Some rc"
    and fk: "\<forall>x \<in> set (reservas db). \<exists>c \<in> set (clientes db). cliente_pk c = cliente x"
  shows "\<exists>db' r. liberar_reserva None rid cli ahora db =
           ([ATOMIC_BEGIN, SELECT_FOR_UPDATE rid, COMMIT], db', Inr r)"
proof (cases "primero (rev (sort_key fecha_creacion
                 (filter (\<lambda>x. recurso x = rid \<and> cliente x = cliente_pk cli \<and> estado x = ACTIVA)
                    (reservas db))))")
  case None
  with rc show ?thesis
    by (simp add: liberar_reserva_def atomic_def liberar_reserva_cuerpo_def)
next
  case r0: (Some reserva0)
  let ?res = "reserva0\<lparr>estado := FINALIZADA, fecha_liberacion := Some ahora\<rparr>"
  show ?thesis
  proof (cases "primero (sort_key (\<lambda>x. (reloj_lamport x, prioridad_id x))
                  (filter (\<lambda>x. recurso x = rid \<and> estado x = EN_COLA)
                     (guardar_reserva ?res (reservas db))))")
    case None
    with rc r0 show ?thesis
      by (simp add: liberar_reserva_def atomic_def liberar_reserva_cuerpo_def
            notificar_cambio_cola_def Let_def)
  next
    case s0: (Some siguiente0)
    from primero_cola [OF s0]
    have mem: "siguiente0 \<in> set (guardar_reserva ?res (reservas db))"
      and cola: "estado siguiente0 = EN_COLA"
      by simp_all
    have "siguiente0 \<noteq> ?res"
    proof
      assume "siguiente0 = ?res"
      then have "estado siguiente0 = FINALIZADA" by simp
      with cola show False by simp
    qed
    with mem guardar_subconjunto [of ?res "reservas db"]
    have "siguiente0 \<in> set (reservas db)" by blast
    with fk obtain c where c: "c \<in> set (clientes db)" "cliente_pk c = cliente siguiente0"
      by blast
    then have "find (\<lambda>c. cliente_pk c = cliente siguiente0) (clientes db) \<noteq> None"
      by (simp only: find_None_iff) blast
    then obtain cli_sig where
      "find (\<lambda>c. cliente_pk c = cliente siguiente0) (clientes db) = Some cli_sig"
      by blast
    with rc r0 s0 show ?thesis
      by (simp add: liberar_reserva_def atomic_def liberar_reserva_cuerpo_def
            notificar_cambio_cola_def Let_def)
  qed
qed

text \<open>
  A release that finishes a reservation without a channel layer reaches the
  notification when there is one; the outcome then follows that of \<open>group_send\<close>.
\<close>

lemma liberar_reserva_con_capa:
  assumes "snd (snd (liberar_reserva None rid cli ahora db)) = Inr (Some lib)"
  shows "liberar_reserva (Some gs) rid cli ahora db =
     (case gs rid of
        Inl e \<Rightarrow> ([ATOMIC_BEGIN, SELECT_FOR_UPDATE rid, GROUP_SEND rid, ROLLBACK], db, Inl e)
      | Inr u \<Rightarrow> ([ATOMIC_BEGIN, SELECT_FOR_UPDATE rid, GROUP_SEND rid, COMMIT],
                   fst (snd (liberar_reserva None rid cli ahora db)), Inr (Some lib)))"
proof (cases "recursos db rid")
  case None
  with assms show ?thesis
    by (simp add: liberar_reserva_def atomic_def liberar_reserva_cuerpo_def)
next
  case (Some rc)
  show ?thesis
  proof (cases "primero (rev (sort_key fecha_creacion
                 (filter (\<lambda>x. recurso x = rid \<and> cliente x = cliente_pk cli \<and> estado x = ACTIVA)
                    (reservas db))))")
    case None
    with assms Some show ?thesis
      by (simp add: liberar_reserva_def atomic_def liberar_reserva_cuerpo_def)
  next
    case r0: (Some reserva0)
    let ?res = "reserva0\<lparr>estado := FINALIZADA, fecha_liberacion := Some ahora\<rparr>"
    show ?thesis
    proof (cases "primero (sort_key (\<lambda>x. (reloj_lamport x, prioridad_id x))
                    (filter (\<lambda>x. recurso x = rid \<and> estado x = EN_COLA)
                       (guardar_reserva ?res (reservas db))))")
      case None
      with assms Some r0 show ?thesis
        by (cases "gs rid")
           (simp_all add: liberar_reserva_def atomic_def liberar_reserva_cuerpo_def
              notificar_cambio_cola_def Let_def)
    next
      case s0: (Some siguiente0)
      show ?thesis
      proof (cases "find (\<lambda>c. cliente_pk c = cliente siguiente0) (clientes db)")
        case None
        with assms Some r0 s0 show ?thesis
          by (simp add: liberar_reserva_def atomic_def liberar_reserva_cuerpo_def
                notificar_cambio_cola_def Let_def)
      next
        case c: (Some cli_sig)
        with assms Some r0 s0 show ?thesis
          by (cases "gs rid")
             (simp_all add: liberar_reserva_def atomic_def liberar_reserva_cuerpo_def
                notificar_cambio_cola_def Let_def)
      qed
    qed
  qed
qed

section \<open>The Lamport clock\<close>



section \<open>Admission of a request\<close>

text \<open>
  C4 (as the code has it). When the resource exists, the clock of the request and
  the timestamp of the client fit their columns, and the notification returns, a
  request returns the reservation it has added to the table. If the resource was
  DISPONIBLE the reservation is ACTIVA with \<open>fecha_concesion\<close> set, and the
  resource becomes OCUPADO with \<open>reserva_actual\<close> pointing to it; otherwise the
  reservation is EN_COLA.
\<close>

theorem C4_concesion_inmediata:
  assumes "recursos db rid = Some rc"
    and "en_rango_bigint (reloj_de_lamport db rid ts)" and "bigint_nulo ts"
    and "snd (notificar_cambio_cola capa rid) = Inr ()"
  shows "\<exists>tr db' res. solicitar_reserva capa rid cli ts ahora db = (tr, db', Inr res) \<and>
     reservas db' = reservas db @ [res] \<and> recurso res = rid \<and> cliente res = cliente_pk cli \<and>
     (estado_recurso rc = DISPONIBLE \<longrightarrow>
        estado res = ACTIVA \<and> fecha_concesion res = Some ahora \<and>
        recursos db' rid =
          Some (rc\<lparr>estado_recurso := OCUPADO, reserva_actual := Some (reserva_pk res)\<rparr>)) \<and>
     (estado_recurso rc \<noteq> DISPONIBLE \<longrightarrow> estado res = EN_COLA)"
  using assms
  by (cases "notificar_cambio_cola capa rid")
     (auto simp: solicitar_reserva_def atomic_def solicitar_reserva_cuerpo_def Let_def)

theorem C4_concesion_inmediata_witness:
  "recursos ej_bd0 1 = Some ej_impresora \<and>
   en_rango_bigint (reloj_de_lamport ej_bd0 1 (Some 0)) \<and> bigint_nulo (Some 0) \<and>
   snd (notificar_cambio_cola (Some ej_capa_ok) 1) = Inr () \<and>
   estado_recurso ej_impresora = DISPONIBLE \<and>
   (case solicitar_reserva (Some ej_capa_ok) 1 ej_cliA (Some 0) 10 ej_bd0 of
      (tr, db', Inl e) \<Rightarrow> False
    | (tr, db', Inr res) \<Rightarrow> estado res = ACTIVA \<and> fecha_concesion res = Some 10 \<and>
        reservas db' = [res] \<and> reserva_pk res = 1 \<and>
        recursos db' 1 = Some (ej_impresora\<lparr>estado_recurso := OCUPADO, reserva_actual := Some 1\<rparr>))"
  using C4_concesion_inmediata [of ej_bd0 1 ej_impresora "Some 0" "Some ej_capa_ok" ej_cliA 10]
  by (simp add: ej_bd0_def ej_impresora_def ej_capa_ok_def ej_cliA_def solicitar_defs Let_def)

text \<open>
  In the example the printer is free. A request whose client reports the largest
  timestamp of 64 bits gets a clock that the column refuses: it raises, and no
  reservation is created. A request while the channel layer is down raises the
  error of the delivery, and no reservation is created either.
\<close>

theorem C4_solicitud_sin_reserva_counterexample:
  "estado_recurso ej_impresora = DISPONIBLE \<and>
   recursos ej_bd0 1 = Some ej_impresora \<and>
   solicitar_reserva None 1 ej_cliA (Some 9223372036854775807) 10 ej_bd0 =
     ([ATOMIC_BEGIN, SELECT_FOR_UPDATE 1, ROLLBACK], ej_bd0, Inl DataError) \<and>
   solicitar_reserva (Some ej_capa_caida) 1 ej_cliB (Some 3) 11 ej_bd0 =
     ([ATOMIC_BEGIN, SELECT_FOR_UPDATE 1, GROUP_SEND 1, ROLLBACK], ej_bd0,
      Inl (ErrorDeEnvio ''ConnectionError''))"
  by (simp add: ej_bd0_def ej_impresora_def ej_capa_caida_def solicitar_defs Let_def)

text \<open>
  C10 (as the code has it). When the resource is FUERA_SERVICIO, the clock of the
  request and the timestamp of the client fit their columns, and the notification
  returns, a request returns without an exception; the reservation it adds is
  EN_COLA (not RECHAZADA), and the table of resources, so the state and
  \<open>reserva_actual\<close> of the resource, is as before.
\<close>

theorem C10_fuera_de_servicio:
  assumes "recursos db rid = Some rc"
    and "estado_recurso rc = FUERA_SERVICIO"
    and "en_rango_bigint (reloj_de_lamport db rid ts)" and "bigint_nulo ts"
    and "snd (notificar_cambio_cola capa rid) = Inr ()"
  shows "\<exists>tr db' res. solicitar_reserva capa rid cli ts ahora db = (tr, db', Inr res) \<and>
     reservas db' = reservas db @ [res] \<and> recurso res = rid \<and>
     estado res = EN_COLA \<and> estado res \<noteq> RECHAZADA \<and> fecha_concesion res = None \<and>
     recursos db' = recursos db \<and> recursos db' rid = Some rc"
  using assms
  by (cases "notificar_cambio_cola capa rid")
     (auto simp: solicitar_reserva_def atomic_def solicitar_reserva_cuerpo_def Let_def)

theorem C10_fuera_de_servicio_witness:
  "recursos ej_bd0 2 = Some ej_escaner \<and>
   estado_recurso ej_escaner = FUERA_SERVICIO \<and>
   en_rango_bigint (reloj_de_lamport ej_bd0 2 (Some 7)) \<and> bigint_nulo (Some 7) \<and>
   snd (notificar_cambio_cola None 2) = Inr () \<and>
   (case solicitar_reserva None 2 ej_cliA (Some 7) 10 ej_bd0 of
      (tr, db', Inl e) \<Rightarrow> False
    | (tr, db', Inr res) \<Rightarrow> estado res = EN_COLA \<and> reloj_lamport res = 8 \<and>
        reservas db' = [res] \<and> recursos db' 2 = Some ej_escaner)"
  using C10_fuera_de_servicio [of ej_bd0 2 ej_escaner "Some 7" None ej_cliA 10]
  by (simp add: ej_bd0_def ej_escaner_def ej_cliA_def solicitar_defs Let_def)

text \<open>
  In the example the scanner is out of service. A request while the channel layer
  is down does not succeed: it raises the error of the delivery and leaves no
  reservation. Neither does a request whose client reports the largest timestamp of
  64 bits: the column refuses its clock.
\<close>

theorem C10_solicitud_falla_counterexample:
  "estado_recurso ej_escaner = FUERA_SERVICIO \<and>
   recursos ej_bd0 2 = Some ej_escaner \<and>
   solicitar_reserva (Some ej_capa_caida) 2 ej_cliB (Some 0) 10 ej_bd0 =
     ([ATOMIC_BEGIN, SELECT_FOR_UPDATE 2, GROUP_SEND 2, ROLLBACK], ej_bd0,
      Inl (ErrorDeEnvio ''ConnectionError'')) \<and>
   solicitar_reserva None 2 ej_cliC (Some 9223372036854775807) 11 ej_bd0 =
     ([ATOMIC_BEGIN, SELECT_FOR_UPDATE 2, ROLLBACK], ej_bd0, Inl DataError)"
  by (simp add: ej_bd0_def ej_escaner_def ej_capa_caida_def solicitar_defs Let_def)

section \<open>Mutual exclusion\<close>

text \<open>
  C1. In every state that requests and releases reach from an initial state, every
  resource has at most one ACTIVA reservation; it is OCUPADO exactly when it has one,
  and exactly when it has one to which \<open>reserva_actual\<close> points; and a resource
  that is DISPONIBLE has no \<open>reserva_actual\<close>.
\<close>

theorem C1_exclusion_mutua:
  assumes "alcanzable db" and "recursos db rid = Some rc"
  shows "length (activas db rid) \<le> 1 \<and>
     (estado_recurso rc = OCUPADO \<longleftrightarrow> length (activas db rid) = 1) \<and>
     (estado_recurso rc = OCUPADO \<longleftrightarrow>
        (\<exists>a. activas db rid = [a] \<and> reserva_actual rc = Some (reserva_pk a))) \<and>
     (estado_recurso rc = DISPONIBLE \<longrightarrow> reserva_actual rc = None)"
proof -
  have inv: "invariante db" using assms(1) by (rule alcanzable_invariante)
  then have "distinct (reservas db)"
    by (simp add: invariante_def distinct_map)
  then have dist: "distinct (activas db rid)"
    by (simp add: activas_def)
  have conj: "set (activas db rid) = activas_de (set (reservas db)) rid"
    by (auto simp: activas_def activas_de_def)
  have ir: "inv_recurso (set (activas db rid)) rc"
    using inv assms(2) by (simp add: invariante_def conj)
  show ?thesis
  proof (cases "estado_recurso rc = OCUPADO")
    case True
    with ir obtain a where a: "set (activas db rid) = {a}" "reserva_actual rc = Some (reserva_pk a)"
      by (auto simp: inv_recurso_def)
    have "activas db rid = [a]" using dist a(1) by (rule lista_unica)
    with True a(2) show ?thesis by simp
  next
    case False
    with ir have "activas db rid = []" "reserva_actual rc = None"
      by (simp_all add: inv_recurso_def)
    with False show ?thesis by simp
  qed
qed

theorem C1_exclusion_mutua_witness:
  "alcanzable (fst (snd (solicitar_reserva None 1 ej_cliA (Some 0) 10 ej_bd0))) \<and>
   recursos (fst (snd (solicitar_reserva None 1 ej_cliA (Some 0) 10 ej_bd0))) 1 =
     Some (ej_impresora\<lparr>estado_recurso := OCUPADO, reserva_actual := Some 1\<rparr>) \<and>
   length (activas (fst (snd (solicitar_reserva None 1 ej_cliA (Some 0) 10 ej_bd0))) 1) = 1"
proof -
  let ?db = "fst (snd (solicitar_reserva None 1 ej_cliA (Some 0) 10 ej_bd0))"
  have ini: "inicial ej_bd0"
    by (simp add: inicial_def ej_bd0_def ej_impresora_def ej_escaner_def)
  have alc: "alcanzable ?db"
    by (rule alc_solicitar [OF alc_inicial [OF ini]])
  have rc: "recursos ?db 1 =
      Some (ej_impresora\<lparr>estado_recurso := OCUPADO, reserva_actual := Some 1\<rparr>)"
    by (simp add: ej_bd0_def ej_impresora_def ej_escaner_def ej_cliA_def solicitar_defs Let_def)
  from C1_exclusion_mutua [OF alc rc] have "length (activas ?db 1) = 1"
    by simp
  with alc rc show ?thesis by blast
qed

section \<open>Promotion on release\<close>

text \<open>
  C2. When a release finishes an ACTIVA reservation of a resource that has
  reservations EN_COLA (in a table with distinct primary keys), one of them, \<open>s\<close>,
  is promoted: every reservation \<open>q\<close> of the queue has a larger
  \<open>reloj_lamport\<close>, or the same one and a \<open>prioridad_id\<close> that is not smaller
  in the order of strings; \<open>s\<close> is stored ACTIVA with \<open>fecha_concesion\<close> set, and
  the resource is OCUPADO with \<open>reserva_actual\<close> pointing to it. The order of
  creation plays no part.
\<close>

theorem C2_orden_promocion:
  assumes "snd (snd (liberar_reserva capa rid cli ahora db)) = Inr (Some lib)"
    and "distinct (map reserva_pk (reservas db))"
    and "en_cola db rid \<noteq> []"
  shows "\<exists>s \<in> set (en_cola db rid).
     (\<forall>q \<in> set (en_cola db rid).
        reloj_lamport s < reloj_lamport q \<or>
        (reloj_lamport s = reloj_lamport q \<and> prioridad_id s \<le> prioridad_id q)) \<and>
     s\<lparr>estado := ACTIVA, fecha_concesion := Some ahora\<rparr>
        \<in> set (reservas (fst (snd (liberar_reserva capa rid cli ahora db)))) \<and>
     (\<exists>rc'. recursos (fst (snd (liberar_reserva capa rid cli ahora db))) rid = Some rc' \<and>
        estado_recurso rc' = OCUPADO \<and> reserva_actual rc' = Some (reserva_pk s))"
proof -
  obtain rc s e1 e2 where s: "s \<in> set (en_cola db rid)"
    and smin: "\<forall>q \<in> set (en_cola db rid).
           (reloj_lamport s, prioridad_id s) \<le> (reloj_lamport q, prioridad_id q)"
    and s': "s\<lparr>estado := ACTIVA, fecha_concesion := Some ahora\<rparr>
           \<in> set (reservas (fst (snd (liberar_reserva capa rid cli ahora db))))"
    and rcs: "recursos (fst (snd (liberar_reserva capa rid cli ahora db))) =
           (recursos db)(rid \<mapsto> rc\<lparr>estado_recurso := OCUPADO, reserva_actual := Some (reserva_pk s)\<rparr>)"
    by (rule liberar_reserva_promueve [OF assms]) (rule that)
  have "\<forall>q \<in> set (en_cola db rid).
        reloj_lamport s < reloj_lamport q \<or>
        (reloj_lamport s = reloj_lamport q \<and> prioridad_id s \<le> prioridad_id q)"
    using smin by (simp only: par_menor_igual)
  moreover have "\<exists>rc'. recursos (fst (snd (liberar_reserva capa rid cli ahora db))) rid = Some rc' \<and>
        estado_recurso rc' = OCUPADO \<and> reserva_actual rc' = Some (reserva_pk s)"
    by (simp add: rcs)
  ultimately show ?thesis using s s' by blast
qed

theorem C2_orden_promocion_witness:
  "snd (snd (liberar_reserva None 1 ej_cliC 20 ej_bd_cola)) =
     Inr (Some (ej_r1\<lparr>estado := FINALIZADA, fecha_liberacion := Some 20\<rparr>)) \<and>
   distinct (map reserva_pk (reservas ej_bd_cola)) \<and>
   en_cola ej_bd_cola 1 = [ej_r2, ej_r3] \<and>
   recursos (fst (snd (liberar_reserva None 1 ej_cliC 20 ej_bd_cola))) 1 =
     Some (ej_impresora\<lparr>estado_recurso := OCUPADO, reserva_actual := Some 3\<rparr>)"
  using C2_orden_promocion [of None 1 ej_cliC 20 ej_bd_cola
      "ej_r1\<lparr>estado := FINALIZADA, fecha_liberacion := Some 20\<rparr>"]
  by (simp add: ej_bd_cola_def ej_ocupada_def ej_impresora_def ej_escaner_def
        ej_r1_def ej_r2_def ej_r3_def ej_cliA_def ej_cliB_def ej_cliC_def en_cola_def liberar_defs Let_def)

text \<open>
  C9 (as the code has it). When a release promotes a reservation of the queue, it
  appends two events to the log: first the LIBERACION event of the reservation that
  was released, then the CONCESION event of the reservation that was promoted.
\<close>

theorem C9_orden_eventos:
  assumes "snd (snd (liberar_reserva capa rid cli ahora db)) = Inr (Some lib)"
    and "distinct (map reserva_pk (reservas db))"
    and "en_cola db rid \<noteq> []"
  shows "\<exists>s e1 e2. s \<in> set (en_cola db rid) \<and>
     eventos (fst (snd (liberar_reserva capa rid cli ahora db))) = eventos db @ [e1, e2] \<and>
     tipo_evento e1 = ''LIBERACION'' \<and> reserva e1 = Some (reserva_pk lib) \<and>
     tipo_evento e2 = ''CONCESION'' \<and> reserva e2 = Some (reserva_pk s) \<and>
     s\<lparr>estado := ACTIVA, fecha_concesion := Some ahora\<rparr>
        \<in> set (reservas (fst (snd (liberar_reserva capa rid cli ahora db))))"
proof -
  obtain rc s e1 e2 where "s \<in> set (en_cola db rid)"
    and "s\<lparr>estado := ACTIVA, fecha_concesion := Some ahora\<rparr>
           \<in> set (reservas (fst (snd (liberar_reserva capa rid cli ahora db))))"
    and "eventos (fst (snd (liberar_reserva capa rid cli ahora db))) = eventos db @ [e1, e2]"
    and "tipo_evento e1 = ''LIBERACION''" and "reserva e1 = Some (reserva_pk lib)"
    and "tipo_evento e2 = ''CONCESION''" and "reserva e2 = Some (reserva_pk s)"
    by (rule liberar_reserva_promueve [OF assms]) (rule that)
  then show ?thesis by blast
qed

theorem C9_orden_eventos_witness:
  "snd (snd (liberar_reserva (Some ej_capa_ok) 1 ej_cliC 21 ej_bd_cola)) =
     Inr (Some (ej_r1\<lparr>estado := FINALIZADA, fecha_liberacion := Some 21\<rparr>)) \<and>
   distinct (map reserva_pk (reservas ej_bd_cola)) \<and>
   en_cola ej_bd_cola 1 \<noteq> [] \<and>
   map tipo_evento (eventos (fst (snd (liberar_reserva (Some ej_capa_ok) 1 ej_cliC 21 ej_bd_cola)))) =
     [''LIBERACION'', ''CONCESION'']"
  using C9_orden_eventos [of "Some ej_capa_ok" 1 ej_cliC 21 ej_bd_cola
      "ej_r1\<lparr>estado := FINALIZADA, fecha_liberacion := Some 21\<rparr>"]
  by (simp add: ej_bd_cola_def ej_ocupada_def ej_impresora_def ej_escaner_def
        ej_r1_def ej_r2_def ej_r3_def ej_cliA_def ej_cliB_def ej_cliC_def ej_capa_ok_def
        en_cola_def liberar_defs Let_def)

text \<open>
  In the example the printer is released by client C while two reservations wait:
  the log receives LIBERACION (reservation 1) before CONCESION (reservation 3), not
  the other way round.
\<close>

theorem C9_concesion_primero_counterexample:
  "\<not> concesion_antes_de_liberacion
       (eventos (fst (snd (liberar_reserva None 1 ej_cliC 20 ej_bd_cola)))) \<and>
   map (\<lambda>e. (tipo_evento e, reserva e))
     (eventos (fst (snd (liberar_reserva None 1 ej_cliC 20 ej_bd_cola)))) =
   [(''LIBERACION'', Some 1), (''CONCESION'', Some 3)]"
  by (simp add: concesion_antes_de_liberacion_def
        ej_bd_cola_def ej_ocupada_def ej_impresora_def ej_escaner_def
        ej_r1_def ej_r2_def ej_r3_def ej_cliA_def ej_cliB_def ej_cliC_def liberar_defs Let_def)

section \<open>Release without an active reservation\<close>

text \<open>
  C5. When the resource exists and the client has no ACTIVA reservation on it,
  \<open>liberar_reserva\<close> returns \<open>None\<close> and commits a database equal to the one it
  found: resources, reservations and events are as before, and nothing is
  published. Through the API (the client exists) the answer is
  \<open>ok = true, liberada = false\<close>, and a second call right after the first gives the
  same answer and the same database.
\<close>

theorem C5_liberar_sin_reserva_activa:
  assumes "recursos db rid = Some rc"
    and "get_cliente_or_404 db cid = Inr cli" and "cid \<noteq> 0"
    and "\<forall>x \<in> set (reservas db).
           \<not> (recurso x = rid \<and> cliente x = cliente_pk cli \<and> estado x = ACTIVA)"
  shows "liberar_reserva capa rid cli ahora db =
           ([ATOMIC_BEGIN, SELECT_FOR_UPDATE rid, COMMIT], db, Inr None) \<and>
     liberar_reserva_api capa ahora ''POST'' (Some \<lparr>p_cliente_id = Some cid, p_ts_cliente = t\<rparr>) rid db =
           ([ATOMIC_BEGIN, SELECT_FOR_UPDATE rid, COMMIT], db,
            Inr (JsonResponse [(''ok'', Booleano True), (''liberada'', Booleano False)])) \<and>
     liberar_reserva_api capa ahora2 ''POST'' (Some \<lparr>p_cliente_id = Some cid, p_ts_cliente = t\<rparr>) rid
         (fst (snd (liberar_reserva_api capa ahora ''POST''
            (Some \<lparr>p_cliente_id = Some cid, p_ts_cliente = t\<rparr>) rid db))) =
           ([ATOMIC_BEGIN, SELECT_FOR_UPDATE rid, COMMIT], db,
            Inr (JsonResponse [(''ok'', Booleano True), (''liberada'', Booleano False)]))"
proof -
  have srv: "liberar_reserva capa rid cli a db =
           ([ATOMIC_BEGIN, SELECT_FOR_UPDATE rid, COMMIT], db, Inr None)" for a
    using assms(1,4) by (rule liberar_reserva_sin_activa)
  have api: "liberar_reserva_api capa a ''POST'' (Some \<lparr>p_cliente_id = Some cid, p_ts_cliente = t\<rparr>) rid db =
           ([ATOMIC_BEGIN, SELECT_FOR_UPDATE rid, COMMIT], db,
            Inr (JsonResponse [(''ok'', Booleano True), (''liberada'', Booleano False)]))" for a
    using assms(2,3) by (simp add: liberar_reserva_api_def srv)
  show ?thesis by (simp add: srv api)
qed

theorem C5_liberar_sin_reserva_activa_witness:
  "recursos ej_bd_cola 1 = Some ej_ocupada \<and>
   get_cliente_or_404 ej_bd_cola 2 = Inr ej_cliB \<and>
   liberar_reserva_api None 30 ''POST'' (Some \<lparr>p_cliente_id = Some 2, p_ts_cliente = None\<rparr>) 1 ej_bd_cola =
     ([ATOMIC_BEGIN, SELECT_FOR_UPDATE 1, COMMIT], ej_bd_cola,
      Inr (JsonResponse [(''ok'', Booleano True), (''liberada'', Booleano False)]))"
proof -
  have rc: "recursos ej_bd_cola 1 = Some ej_ocupada"
    by (simp add: ej_bd_cola_def)
  have cl: "get_cliente_or_404 ej_bd_cola 2 = Inr ej_cliB"
    by (simp add: get_cliente_or_404_def ej_bd_cola_def ej_cliA_def ej_cliB_def ej_cliC_def)
  have na: "\<forall>x \<in> set (reservas ej_bd_cola).
           \<not> (recurso x = 1 \<and> cliente x = cliente_pk ej_cliB \<and> estado x = ACTIVA)"
    by (simp add: ej_bd_cola_def ej_r1_def ej_r2_def ej_r3_def ej_cliB_def)
  from C5_liberar_sin_reserva_activa [OF rc cl _ na, of None 30 None 31]
  show ?thesis using rc cl by simp
qed

section \<open>Unknown resources and clients\<close>

text \<open>
  C6. A request through the API for resource 99, which does not exist, by client 1,
  which does: the service raises \<open>Recurso.DoesNotExist\<close>, the view does not catch
  it, the transaction rolls back and the database is unchanged, and the client of
  the API receives status 500, not a not-found answer. An unknown client, in the same
  view, is answered with \<open>Http404\<close>, status 404, and the database is unchanged.
\<close>

theorem C6_recurso_desconocido_500:
  "solicitar_reserva_api None 10 ''POST'' (Some \<lparr>p_cliente_id = Some 1, p_ts_cliente = Some 0\<rparr>) 99 ej_bd0 =
     ([ATOMIC_BEGIN, SELECT_FOR_UPDATE 99, ROLLBACK], ej_bd0, Inl Recurso_DoesNotExist) \<and>
   codigo_http (Inl Recurso_DoesNotExist) = 500 \<and>
   solicitar_reserva_api None 10 ''POST'' (Some \<lparr>p_cliente_id = Some 99, p_ts_cliente = Some 0\<rparr>) 1 ej_bd0 =
     ([], ej_bd0, Inl Http404) \<and>
   codigo_http (Inl Http404) = 404"
  by (simp add: solicitar_reserva_api_def get_cliente_or_404_def codigo_http_def
        solicitar_reserva_def atomic_def solicitar_reserva_cuerpo_def
        ej_bd0_def ej_cliA_def ej_cliB_def ej_cliC_def)

section \<open>Notification\<close>

text \<open>
  C7 (as the code has it). Without a channel layer the notification does nothing
  and returns, so the operations succeed: a request on an existing resource whose
  clock and client timestamp fit their columns commits and returns its reservation,
  and a release on an existing resource, in a table whose reservations refer to
  existing clients, commits and returns. When \<open>group_send\<close> raises, the exception
  leaves the operation: such a request, and a release that would otherwise have
  finished a reservation, fail with that exception, and the transaction is rolled
  back, so the database is the one before the call.
\<close>

theorem C7_fallo_de_notificacion:
  assumes "gs rid = Inl e" and "recursos db rid = Some rc"
  shows "notificar_cambio_cola None rid = ([], Inr ()) \<and>
     (en_rango_bigint (reloj_de_lamport db rid ts) \<and> bigint_nulo ts \<longrightarrow>
        (\<exists>db' res. solicitar_reserva None rid cli ts ahora db =
            ([ATOMIC_BEGIN, SELECT_FOR_UPDATE rid, COMMIT], db', Inr res)) \<and>
        solicitar_reserva (Some gs) rid cli ts ahora db =
            ([ATOMIC_BEGIN, SELECT_FOR_UPDATE rid, GROUP_SEND rid, ROLLBACK], db, Inl e)) \<and>
     ((\<forall>x \<in> set (reservas db). \<exists>c \<in> set (clientes db). cliente_pk c = cliente x) \<longrightarrow>
        (\<exists>db' r. liberar_reserva None rid cli ahora db =
            ([ATOMIC_BEGIN, SELECT_FOR_UPDATE rid, COMMIT], db', Inr r))) \<and>
     (snd (snd (liberar_reserva None rid cli ahora db)) = Inr (Some lib) \<longrightarrow>
        liberar_reserva (Some gs) rid cli ahora db =
            ([ATOMIC_BEGIN, SELECT_FOR_UPDATE rid, GROUP_SEND rid, ROLLBACK], db, Inl e))"
proof (intro conjI impI)
  show "notificar_cambio_cola None rid = ([], Inr ())"
    by (simp add: notificar_cambio_cola_def)
next
  assume "en_rango_bigint (reloj_de_lamport db rid ts) \<and> bigint_nulo ts"
  then show "\<exists>db' res. solicitar_reserva None rid cli ts ahora db =
            ([ATOMIC_BEGIN, SELECT_FOR_UPDATE rid, COMMIT], db', Inr res)"
    using assms(2) by (blast intro: solicitar_reserva_sin_capa)
next
  assume "en_rango_bigint (reloj_de_lamport db rid ts) \<and> bigint_nulo ts"
  then show "solicitar_reserva (Some gs) rid cli ts ahora db =
            ([ATOMIC_BEGIN, SELECT_FOR_UPDATE rid, GROUP_SEND rid, ROLLBACK], db, Inl e)"
    using assms by (simp add: solicitar_reserva_envio_falla)
next
  assume "\<forall>x \<in> set (reservas db). \<exists>c \<in> set (clientes db). cliente_pk c = cliente x"
  with assms(2) show "\<exists>db' r. liberar_reserva None rid cli ahora db =
            ([ATOMIC_BEGIN, SELECT_FOR_UPDATE rid, COMMIT], db', Inr r)"
    by (rule liberar_reserva_sin_capa)
next
  assume "snd (snd (liberar_reserva None rid cli ahora db)) = Inr (Some lib)"
  then show "liberar_reserva (Some gs) rid cli ahora db =
            ([ATOMIC_BEGIN, SELECT_FOR_UPDATE rid, GROUP_SEND rid, ROLLBACK], db, Inl e)"
    using assms(1) by (simp add: liberar_reserva_con_capa)
qed

theorem C7_fallo_de_notificacion_witness:
  "ej_capa_caida 1 = Inl (ErrorDeEnvio ''ConnectionError'') \<and>
   recursos ej_bd_cola 1 = Some ej_ocupada \<and>
   en_rango_bigint (reloj_de_lamport ej_bd_cola 1 (Some 2)) \<and> bigint_nulo (Some 2) \<and>
   map cliente (reservas ej_bd_cola) = [3, 2, 1] \<and>
   map cliente_pk (clientes ej_bd_cola) = [1, 2, 3] \<and>
   snd (snd (liberar_reserva None 1 ej_cliC 20 ej_bd_cola)) =
     Inr (Some (ej_r1\<lparr>estado := FINALIZADA, fecha_liberacion := Some 20\<rparr>)) \<and>
   liberar_reserva (Some ej_capa_caida) 1 ej_cliC 20 ej_bd_cola =
     ([ATOMIC_BEGIN, SELECT_FOR_UPDATE 1, GROUP_SEND 1, ROLLBACK], ej_bd_cola,
      Inl (ErrorDeEnvio ''ConnectionError'')) \<and>
   solicitar_reserva (Some ej_capa_caida) 1 ej_cliA (Some 2) 20 ej_bd_cola =
     ([ATOMIC_BEGIN, SELECT_FOR_UPDATE 1, GROUP_SEND 1, ROLLBACK], ej_bd_cola,
      Inl (ErrorDeEnvio ''ConnectionError''))"
proof -
  have f: "ej_capa_caida 1 = Inl (ErrorDeEnvio ''ConnectionError'')"
    by (simp add: ej_capa_caida_def)
  have rc: "recursos ej_bd_cola 1 = Some ej_ocupada"
    by (simp add: ej_bd_cola_def)
  have rango: "en_rango_bigint (reloj_de_lamport ej_bd_cola 1 (Some 2)) \<and> bigint_nulo (Some 2)"
    by (simp add: ej_bd_cola_def ej_r1_def ej_r2_def ej_r3_def reloj_de_lamport_def
          en_rango_bigint_def bigint_nulo_def o_cero_def agregar_max_def Let_def)
  have fk: "map cliente (reservas ej_bd_cola) = [3, 2, 1] \<and>
      map cliente_pk (clientes ej_bd_cola) = [1, 2, 3]"
    by (simp add: ej_bd_cola_def ej_r1_def ej_r2_def ej_r3_def ej_cliA_def ej_cliB_def ej_cliC_def)
  have l: "snd (snd (liberar_reserva None 1 ej_cliC 20 ej_bd_cola)) =
     Inr (Some (ej_r1\<lparr>estado := FINALIZADA, fecha_liberacion := Some 20\<rparr>))"
    by (simp add: ej_bd_cola_def ej_ocupada_def ej_impresora_def ej_escaner_def
        ej_r1_def ej_r2_def ej_r3_def ej_cliA_def ej_cliB_def ej_cliC_def liberar_defs Let_def)
  from C7_fallo_de_notificacion [where gs = ej_capa_caida and rid = 1
      and e = "ErrorDeEnvio ''ConnectionError''" and db = ej_bd_cola and rc = ej_ocupada
      and cli = ej_cliC and ahora = 20
      and lib = "ej_r1\<lparr>estado := FINALIZADA, fecha_liberacion := Some 20\<rparr>", OF f rc] l
  have lib: "liberar_reserva (Some ej_capa_caida) 1 ej_cliC 20 ej_bd_cola =
     ([ATOMIC_BEGIN, SELECT_FOR_UPDATE 1, GROUP_SEND 1, ROLLBACK], ej_bd_cola,
      Inl (ErrorDeEnvio ''ConnectionError''))"
    by blast
  from C7_fallo_de_notificacion [where gs = ej_capa_caida and rid = 1
      and e = "ErrorDeEnvio ''ConnectionError''" and db = ej_bd_cola and rc = ej_ocupada
      and cli = ej_cliA and ts = "Some 2" and ahora = 20, OF f rc] rango
  have sol: "solicitar_reserva (Some ej_capa_caida) 1 ej_cliA (Some 2) 20 ej_bd_cola =
     ([ATOMIC_BEGIN, SELECT_FOR_UPDATE 1, GROUP_SEND 1, ROLLBACK], ej_bd_cola,
      Inl (ErrorDeEnvio ''ConnectionError''))"
    by blast
  from f rc rango fk l lib sol show ?thesis by blast
qed

text \<open>
  In the example the channel layer is down: the request of client A for the free
  printer fails with the error of the delivery, and the database is unchanged.
\<close>

theorem C7_notificacion_tragada_counterexample:
  "solicitar_reserva (Some ej_capa_caida) 1 ej_cliA (Some 0) 10 ej_bd0 =
     ([ATOMIC_BEGIN, SELECT_FOR_UPDATE 1, GROUP_SEND 1, ROLLBACK], ej_bd0,
      Inl (ErrorDeEnvio ''ConnectionError''))"
  by (simp add: ej_bd0_def ej_capa_caida_def solicitar_defs Let_def)

text \<open>
  C8 (as the code has it). With a channel layer, the publication of a request on an
  existing resource whose clock and client timestamp fit their columns, and of a
  release that finishes a reservation, happens inside the atomic block: after the
  row lock and before the end of the transaction, which is a COMMIT when
  \<open>group_send\<close> returns and a ROLLBACK when it raises.
\<close>

theorem C8_notificacion_dentro_de_la_transaccion:
  "(recursos db rid = Some rc \<and>
    en_rango_bigint (reloj_de_lamport db rid ts) \<and> bigint_nulo ts \<longrightarrow>
      fst (solicitar_reserva (Some gs) rid cli ts ahora db) =
        [ATOMIC_BEGIN, SELECT_FOR_UPDATE rid, GROUP_SEND rid,
         (case gs rid of Inl e \<Rightarrow> ROLLBACK | Inr u \<Rightarrow> COMMIT)]) \<and>
   (snd (snd (liberar_reserva None rid cli ahora db)) = Inr (Some lib) \<longrightarrow>
      fst (liberar_reserva (Some gs) rid cli ahora db) =
        [ATOMIC_BEGIN, SELECT_FOR_UPDATE rid, GROUP_SEND rid,
         (case gs rid of Inl e \<Rightarrow> ROLLBACK | Inr u \<Rightarrow> COMMIT)])"
proof (intro conjI impI)
  assume h: "recursos db rid = Some rc \<and>
    en_rango_bigint (reloj_de_lamport db rid ts) \<and> bigint_nulo ts"
  show "fst (solicitar_reserva (Some gs) rid cli ts ahora db) =
        [ATOMIC_BEGIN, SELECT_FOR_UPDATE rid, GROUP_SEND rid,
         (case gs rid of Inl e \<Rightarrow> ROLLBACK | Inr u \<Rightarrow> COMMIT)]"
  proof (cases "gs rid")
    case (Inl e)
    with h show ?thesis by (simp add: solicitar_reserva_envio_falla)
  next
    case (Inr u)
    with h show ?thesis by (simp add: solicitar_reserva_envio_ok)
  qed
next
  assume "snd (snd (liberar_reserva None rid cli ahora db)) = Inr (Some lib)"
  then show "fst (liberar_reserva (Some gs) rid cli ahora db) =
        [ATOMIC_BEGIN, SELECT_FOR_UPDATE rid, GROUP_SEND rid,
         (case gs rid of Inl e \<Rightarrow> ROLLBACK | Inr u \<Rightarrow> COMMIT)]"
    by (simp add: liberar_reserva_con_capa split: sum.splits)
qed

theorem C8_notificacion_dentro_de_la_transaccion_witness:
  "recursos ej_bd0 1 = Some ej_impresora \<and>
   en_rango_bigint (reloj_de_lamport ej_bd0 1 (Some 3)) \<and> bigint_nulo (Some 3) \<and>
   fst (solicitar_reserva (Some ej_capa_ok) 1 ej_cliB (Some 3) 12 ej_bd0) =
     [ATOMIC_BEGIN, SELECT_FOR_UPDATE 1, GROUP_SEND 1, COMMIT] \<and>
   fst (solicitar_reserva (Some ej_capa_caida) 1 ej_cliB (Some 3) 12 ej_bd0) =
     [ATOMIC_BEGIN, SELECT_FOR_UPDATE 1, GROUP_SEND 1, ROLLBACK] \<and>
   snd (snd (liberar_reserva None 1 ej_cliC 22 ej_bd_cola)) =
     Inr (Some (ej_r1\<lparr>estado := FINALIZADA, fecha_liberacion := Some 22\<rparr>)) \<and>
   fst (liberar_reserva (Some ej_capa_ok) 1 ej_cliC 22 ej_bd_cola) =
     [ATOMIC_BEGIN, SELECT_FOR_UPDATE 1, GROUP_SEND 1, COMMIT] \<and>
   fst (liberar_reserva (Some ej_capa_caida) 1 ej_cliC 22 ej_bd_cola) =
     [ATOMIC_BEGIN, SELECT_FOR_UPDATE 1, GROUP_SEND 1, ROLLBACK]"
proof -
  have h: "recursos ej_bd0 1 = Some ej_impresora \<and>
      en_rango_bigint (reloj_de_lamport ej_bd0 1 (Some 3)) \<and> bigint_nulo (Some 3)"
    by (simp add: ej_bd0_def reloj_de_lamport_def en_rango_bigint_def bigint_nulo_def
          o_cero_def agregar_max_def Let_def)
  have l: "snd (snd (liberar_reserva None 1 ej_cliC 22 ej_bd_cola)) =
     Inr (Some (ej_r1\<lparr>estado := FINALIZADA, fecha_liberacion := Some 22\<rparr>))"
    by (simp add: ej_bd_cola_def ej_ocupada_def ej_impresora_def ej_escaner_def
        ej_r1_def ej_r2_def ej_r3_def ej_cliA_def ej_cliB_def ej_cliC_def liberar_defs Let_def)
  from C8_notificacion_dentro_de_la_transaccion [where db = ej_bd0 and rid = 1
      and rc = ej_impresora and gs = ej_capa_ok and cli = ej_cliB and ts = "Some 3" and ahora = 12] h
  have s1: "fst (solicitar_reserva (Some ej_capa_ok) 1 ej_cliB (Some 3) 12 ej_bd0) =
     [ATOMIC_BEGIN, SELECT_FOR_UPDATE 1, GROUP_SEND 1, COMMIT]"
    by (simp add: ej_capa_ok_def)
  from C8_notificacion_dentro_de_la_transaccion [where db = ej_bd0 and rid = 1
      and rc = ej_impresora and gs = ej_capa_caida and cli = ej_cliB and ts = "Some 3" and ahora = 12] h
  have s2: "fst (solicitar_reserva (Some ej_capa_caida) 1 ej_cliB (Some 3) 12 ej_bd0) =
     [ATOMIC_BEGIN, SELECT_FOR_UPDATE 1, GROUP_SEND 1, ROLLBACK]"
    by (simp add: ej_capa_caida_def)
  from C8_notificacion_dentro_de_la_transaccion [where db = ej_bd_cola and rid = 1
      and gs = ej_capa_ok and cli = ej_cliC and ahora = 22
      and lib = "ej_r1\<lparr>estado := FINALIZADA, fecha_liberacion := Some 22\<rparr>"] l
  have l1: "fst (liberar_reserva (Some ej_capa_ok) 1 ej_cliC 22 ej_bd_cola) =
     [ATOMIC_BEGIN, SELECT_FOR_UPDATE 1, GROUP_SEND 1, COMMIT]"
    by (simp add: ej_capa_ok_def)
  from C8_notificacion_dentro_de_la_transaccion [where db = ej_bd_cola and rid = 1
      and gs = ej_capa_caida and cli = ej_cliC and ahora = 22
      and lib = "ej_r1\<lparr>estado := FINALIZADA, fecha_liberacion := Some 22\<rparr>"] l
  have l2: "fst (liberar_reserva (Some ej_capa_caida) 1 ej_cliC 22 ej_bd_cola) =
     [ATOMIC_BEGIN, SELECT_FOR_UPDATE 1, GROUP_SEND 1, ROLLBACK]"
    by (simp add: ej_capa_caida_def)
  from h l s1 s2 l1 l2 show ?thesis by blast
qed

text \<open>
  In the example the request publishes while its atomic block is still open; the
  trace does not have the commit before the notification.
\<close>

theorem C8_commit_antes_de_notificar_counterexample:
  "\<not> commit_antes_de_notificar
       (fst (solicitar_reserva (Some ej_capa_ok) 1 ej_cliA (Some 0) 10 ej_bd0))"
  by (simp add: commit_antes_de_notificar_def ej_bd0_def ej_capa_ok_def solicitar_defs Let_def)

end
